theory Spec2Isabelle
  imports Complex_Main "HOL-Library.Sublist" "HOL-Library.AList"
begin

section \<open>JavaScript values used by the chat handler\<close>

text \<open>
  A JavaScript number: \<^verbatim>\<open>NaN\<close>, an infinity, or a finite double, which is given by the
  real it denotes. What \<^verbatim>\<open>parseFloat\<close> returns for a missing or non-numeric attribute is
  \<^verbatim>\<open>NaN\<close>. The sign of zero is not modelled.
\<close>

datatype jsnum = NaN | Num real | PosInf | NegInf

text \<open>\<^verbatim>\<open>a || b\<close> on numbers: \<^verbatim>\<open>NaN\<close> and \<^verbatim>\<open>0\<close> are falsy.\<close>

definition js_or :: "jsnum \<Rightarrow> jsnum \<Rightarrow> jsnum" where
  "js_or a b =
     (case a of NaN \<Rightarrow> b | Num x \<Rightarrow> if x = 0 then b else Num x
      | PosInf \<Rightarrow> PosInf | NegInf \<Rightarrow> NegInf)"

text \<open>\<^verbatim>\<open>x < b\<close> for a finite \<open>x\<close>: every comparison with \<^verbatim>\<open>NaN\<close> is false.\<close>

definition js_lt :: "real \<Rightarrow> jsnum \<Rightarrow> bool" where
  "js_lt x b = (case b of NaN \<Rightarrow> False | Num y \<Rightarrow> x < y | PosInf \<Rightarrow> True | NegInf \<Rightarrow> False)"

text \<open>
  \<^verbatim>\<open>a - b > 0\<close>, the test a sort makes on the result of the comparator
  \<^verbatim>\<open>(a, b) => a - b\<close>. The difference of two finite doubles is rounded, but its sign is
  the sign of the exact difference; the difference of two equal infinities is \<^verbatim>\<open>NaN\<close>.
\<close>

definition js_gt :: "jsnum \<Rightarrow> jsnum \<Rightarrow> bool" where
  "js_gt a b =
     (case a of
        NaN \<Rightarrow> False
      | Num x \<Rightarrow> (case b of Num y \<Rightarrow> y < x | NegInf \<Rightarrow> True | NaN \<Rightarrow> False | PosInf \<Rightarrow> False)
      | PosInf \<Rightarrow> (case b of Num y \<Rightarrow> True | NegInf \<Rightarrow> True | NaN \<Rightarrow> False | PosInf \<Rightarrow> False)
      | NegInf \<Rightarrow> False)"

text \<open>Truthiness of an optional string: \<^verbatim>\<open>undefined\<close>, \<^verbatim>\<open>null\<close> and \<^verbatim>\<open>""\<close> are falsy.\<close>

definition truthy :: "string option \<Rightarrow> bool" where
  "truthy s = (case s of None \<Rightarrow> False | Some t \<Rightarrow> t \<noteq> [])"

text \<open>
  \<^verbatim>\<open>Array.prototype.sort\<close> with the comparator \<^verbatim>\<open>(a, b) => key(a) - key(b)\<close>. The sort is
  stable: an element moves behind another only when the comparator is positive on the
  pair. When a key is \<^verbatim>\<open>NaN\<close> the comparator is not consistent and the order is left to
  the implementation; the function below is then one of the orders allowed.
\<close>

fun insert_by :: "('a \<Rightarrow> jsnum) \<Rightarrow> 'a \<Rightarrow> 'a list \<Rightarrow> 'a list" where
  "insert_by key x [] = [x]"
| "insert_by key x (y # ys) =
     (if js_gt (key x) (key y) then y # insert_by key x ys else x # y # ys)"

definition js_sort :: "('a \<Rightarrow> jsnum) \<Rightarrow> 'a list \<Rightarrow> 'a list" where
  "js_sort key xs = foldr (insert_by key) xs []"

text \<open>
  A configuration node that \<^verbatim>\<open>cleanXmlObject\<close> leaves either as one value or as an
  array; the source tells them apart with \<^verbatim>\<open>Array.isArray\<close>.
\<close>

datatype 'a one_or_many = One 'a | Many "'a list"

fun as_list :: "'a one_or_many \<Rightarrow> 'a list" where
  "as_list (One x) = [x]"
| "as_list (Many xs) = xs"

section \<open>Knowledge base, sessions, requests and responses\<close>

text \<open>
  \<open>threshold\<close> holds \<^verbatim>\<open>parseFloat(item.threshold)\<close>. \<open>relevanceWeight\<close> is \<open>None\<close> when
  the attribute is missing or empty (the source then takes 1.0) and otherwise holds
  \<^verbatim>\<open>parseFloat\<close> of it.
\<close>

record qa_item =
  lang :: string
  intent :: "string option"
  questions :: "string list"
  answers :: "string one_or_many"
  relevanceWeight :: "jsnum option"
  threshold :: jsnum
  nextContextId :: "string option"

record intent_def =
  int_name :: string
  int_keywords :: "string list"

record entity_def =
  ent_name :: string
  ent_values :: "string one_or_many"

record context_def =
  ctx_id :: string
  ctx_item :: "qa_item one_or_many option"

record api_fallback =
  url :: "string option"

text \<open>\<open>defaultThreshold\<close> holds \<^verbatim>\<open>parseFloat(settings.defaultThreshold)\<close>.\<close>

record settings =
  defaultThreshold :: jsnum
  autoDetectLanguage :: "string option"
  tokenizer :: "string option"
  apiFallback :: "api_fallback option"

record config =
  cfg_settings :: settings
  intents :: "intent_def list"
  entities :: "entity_def list"
  qaItems :: "qa_item list"
  contexts :: "context_def list"

text \<open>One result of a Fuse search: the item and its score (lower is better).\<close>

record 'a fuse_result =
  item :: 'a
  score :: real

record session =
  s_history :: "(string \<times> string) list"
  s_context :: "string option"

text \<open>
  \<^verbatim>\<open>conversationMemory\<close> is a plain object, so a lookup also finds what the object
  inherits. The table below holds, under a session id, the session the handler stored.
  Under one of the names every object inherits (\<open>inheritedKeys\<close>) it holds an entry only
  when the handler has assigned a \<^verbatim>\<open>context\<close> to the inherited object of that name; the
  entry keeps the assigned value and its history is not used. The entry under
  \<open>__proto__\<close> stands for the prototype itself: a context assigned there is inherited by
  every object of the process, and what the handler and the libraries do from then on is
  outside the model.
\<close>

type_synonym memory = "string \<rightharpoonup> session"

definition inheritedKeys :: "string list" where
  "inheritedKeys =
     [''constructor'', ''__defineGetter__'', ''__defineSetter__'', ''hasOwnProperty'',
      ''__lookupGetter__'', ''__lookupSetter__'', ''isPrototypeOf'', ''propertyIsEnumerable'',
      ''toString'', ''valueOf'', ''__proto__'', ''toLocaleString'']"

record request =
  req_q :: "string option"
  req_sessionId :: "string option"

text \<open>The JSON body of a successful answer; an absent field is \<open>None\<close>.\<close>

record chat_body =
  res_answer :: string
  res_intent :: "string option"
  res_score :: "real option"
  res_source :: string
  res_context :: "string option"
  res_language :: string
  res_entities :: "(string \<times> string) list option"

text \<open>
  What the handler sends: an error body with its status, the answer body, or nothing at
  all when the handler returns without calling \<^verbatim>\<open>res.json\<close>.
\<close>

datatype http_response = JsonError nat string | JsonOk chat_body | NoResponse

text \<open>
  The outcome of \<^verbatim>\<open>axios.get\<close> followed by the read of \<^verbatim>\<open>apiResponse.data.answer\<close>:
  either something throws (the call is rejected for a transport error, a timeout or an
  error status, or the data of the reply is null or undefined so that reading the field
  throws), or the field is read and is a string or absent. A field that is neither is
  outside the model.
\<close>

datatype api_outcome = ApiThrows | ApiData "string option"

text \<open>
  What one request takes as given: the language detector, the tokenizer constructors
  exported by \<^verbatim>\<open>natural\<close>, Fuse searches over items and over intents (given the
  threshold option and the collection), the value of \<^verbatim>\<open>Math.random()\<close>, the outbound
  call (given the url and the utterance), \<^verbatim>\<open>String.prototype.toLowerCase\<close>, and the
  division of a finite double by a number as the machine rounds it.
\<close>

record env =
  lang_detect :: "string \<Rightarrow> (string \<times> real) list"
  tokenizers :: "string \<Rightarrow> (string \<Rightarrow> string list) option"
  fuse_items :: "jsnum \<Rightarrow> qa_item list \<Rightarrow> string \<Rightarrow> qa_item fuse_result list"
  fuse_intents :: "jsnum \<Rightarrow> intent_def list \<Rightarrow> string \<Rightarrow> intent_def fuse_result list"
  random :: real
  axios_get :: "string \<Rightarrow> string \<Rightarrow> api_outcome"
  toLowerCase :: "string \<Rightarrow> string"
  float_div :: "real \<Rightarrow> jsnum \<Rightarrow> jsnum"

section \<open>Building the search indexes (\<^verbatim>\<open>loadAndPrepareData\<close>)\<close>

text \<open>The threshold option of the two global indexes: \<^verbatim>\<open>parseFloat(defaultThreshold) || 0.4\<close>.\<close>

definition indexThreshold :: "config \<Rightarrow> jsnum" where
  "indexThreshold cfg = js_or (defaultThreshold (cfg_settings cfg)) (Num 0.4)"

text \<open>The standalone items followed by the items nested in the contexts.\<close>

definition allQaItems :: "config \<Rightarrow> qa_item list" where
  "allQaItems cfg =
     qaItems cfg @
     concat (map (\<lambda>c. case ctx_item c of None \<Rightarrow> [] | Some m \<Rightarrow> as_list m) (contexts cfg))"

text \<open>
  \<^verbatim>\<open>fuseInstances.qa[lang]\<close>: an index exists for each language tag that some item
  carries, over the items of that language.
\<close>

definition qaFuse :: "env \<Rightarrow> config \<Rightarrow> string \<Rightarrow> (string \<Rightarrow> qa_item fuse_result list) option" where
  "qaFuse e cfg language =
     (if language \<in> set (map lang (allQaItems cfg))
      then Some (fuse_items e (indexThreshold cfg)
                   (filter (\<lambda>i. lang i = language) (allQaItems cfg)))
      else None)"

definition intentsFuse :: "env \<Rightarrow> config \<Rightarrow> string \<Rightarrow> intent_def fuse_result list" where
  "intentsFuse e cfg = fuse_intents e (indexThreshold cfg) (intents cfg)"

section \<open>The helpers of the handler\<close>

definition detectLanguage :: "env \<Rightarrow> config \<Rightarrow> string \<Rightarrow> string" where
  "detectLanguage e cfg text =
     (if autoDetectLanguage (cfg_settings cfg) \<noteq> Some ''true'' then ''id''
      else (case lang_detect e text of
              [] \<Rightarrow> ''id''
            | (nm, _) # _ \<Rightarrow>
                if toLowerCase e nm = ''indonesian'' then ''id''
                else if toLowerCase e nm = ''english'' then ''en''
                else ''id''))"

text \<open>
  \<^verbatim>\<open>getRandomAnswer\<close>, given the value \<open>rnd\<close> of \<^verbatim>\<open>Math.random()\<close>. Reading past the
  end of the array gives \<^verbatim>\<open>undefined\<close>, whose \<^verbatim>\<open>.value\<close> throws a TypeError: the result
  is \<open>None\<close> then.
\<close>

definition getRandomAnswer :: "real \<Rightarrow> qa_item \<Rightarrow> string option" where
  "getRandomAnswer rnd it =
     (case answers it of
        Many xs \<Rightarrow>
          (let randomIndex = \<lfloor>rnd * real (length xs)\<rfloor>
           in if 0 \<le> randomIndex \<and> randomIndex < int (length xs)
              then Some (xs ! nat randomIndex) else None)
      | One a \<Rightarrow> Some a)"

text \<open>
  \<^verbatim>\<open>recognizeEntities\<close>, given \<^verbatim>\<open>toLowerCase\<close> and the entities of the configuration.
  The object \<^verbatim>\<open>foundEntities\<close> is an association list in insertion order: assigning to
  a key that exists overwrites its value in place, a new key goes to the end
  (\<open>AList.update\<close>). An entity named \<open>__proto__\<close> is outside the model.
\<close>

definition entityValues :: "(string \<Rightarrow> string) \<Rightarrow> entity_def \<Rightarrow> string list" where
  "entityValues lower entity =
     (case ent_values entity of
        Many vs \<Rightarrow> map lower vs
      | One v \<Rightarrow> [lower v])"

definition recognizeEntities ::
  "(string \<Rightarrow> string) \<Rightarrow> entity_def list \<Rightarrow> string list \<Rightarrow> (string \<times> string) list" where
  "recognizeEntities lower ents tokens =
     foldl (\<lambda>foundEntities entity.
              foldl (\<lambda>found token.
                       if lower token \<in> set (entityValues lower entity)
                       then AList.update (ent_name entity) token found
                       else found)
                foundEntities tokens)
       [] ents"

text \<open>
  \<^verbatim>\<open>String.prototype.replace\<close> with a string pattern: the first occurrence of the pattern
  is replaced, and the replacement text is expanded first (\<^verbatim>\<open>$$\<close> is a dollar sign,
  \<^verbatim>\<open>$&\<close> the matched text, \<^verbatim>\<open>$`\<close> the text before the match, \<^verbatim>\<open>$'\<close> the text after it;
  a string pattern has no groups, so any other \<^verbatim>\<open>$\<close> stands for itself).
\<close>

fun split_first :: "string \<Rightarrow> string \<Rightarrow> (string \<times> string) option" where
  "split_first pat [] = (if pat = [] then Some ([], []) else None)"
| "split_first pat (c # s) =
     (if prefix pat (c # s) then Some ([], drop (length pat) (c # s))
      else (case split_first pat s of
              None \<Rightarrow> None
            | Some (pre, post) \<Rightarrow> Some (c # pre, post)))"

fun getSubstitution :: "string \<Rightarrow> string \<Rightarrow> string \<Rightarrow> string \<Rightarrow> string" where
  "getSubstitution matched pre post [] = []"
| "getSubstitution matched pre post [c] = [c]"
| "getSubstitution matched pre post (c # d # r) =
     (if c = CHR ''$'' then
        (if d = CHR ''$'' then CHR ''$'' # getSubstitution matched pre post r
         else if d = CHR ''&'' then matched @ getSubstitution matched pre post r
         else if d = CHR 0x60 then pre @ getSubstitution matched pre post r
         else if d = CHR 0x27 then post @ getSubstitution matched pre post r
         else c # getSubstitution matched pre post (d # r))
      else c # getSubstitution matched pre post (d # r))"

text \<open>Whether a replacement text has one of the four patterns that are expanded.\<close>

fun expands :: "string \<Rightarrow> bool" where
  "expands [] = False"
| "expands [c] = False"
| "expands (c # d # r) =
     ((c = CHR ''$'' \<and> (d = CHR ''$'' \<or> d = CHR ''&'' \<or> d = CHR 0x60 \<or> d = CHR 0x27)) \<or>
      expands (d # r))"

definition js_replace :: "string \<Rightarrow> string \<Rightarrow> string \<Rightarrow> string" where
  "js_replace pat replacement s =
     (case split_first pat s of
        None \<Rightarrow> s
      | Some (pre, post) \<Rightarrow> pre @ getSubstitution pat pre post replacement @ post)"

text \<open>
  The order in which \<^verbatim>\<open>for (const key in entities)\<close> visits the keys: the keys that are
  array indexes (canonical decimal numerals below \<open>2^32 - 1\<close>) in ascending order, then
  the other keys in insertion order.
\<close>

definition is_digit :: "char \<Rightarrow> bool" where
  "is_digit c = (48 \<le> (of_char c :: nat) \<and> (of_char c :: nat) \<le> 57)"

definition nat_of_digits :: "string \<Rightarrow> nat" where
  "nat_of_digits k = foldl (\<lambda>n c. 10 * n + ((of_char c :: nat) - 48)) 0 k"

definition is_array_index :: "string \<Rightarrow> bool" where
  "is_array_index k =
     (k \<noteq> [] \<and> list_all is_digit k \<and> (k = ''0'' \<or> hd k \<noteq> CHR ''0'') \<and>
      nat_of_digits k < 4294967295)"

definition for_in :: "(string \<times> string) list \<Rightarrow> (string \<times> string) list" where
  "for_in obj =
     sort_key (\<lambda>kv. nat_of_digits (fst kv)) (filter (\<lambda>kv. is_array_index (fst kv)) obj) @
     filter (\<lambda>kv. \<not> is_array_index (fst kv)) obj"

definition personalizeAnswer :: "string \<Rightarrow> (string \<times> string) list \<Rightarrow> string" where
  "personalizeAnswer answer ents =
     foldl (\<lambda>personalized kv. js_replace (''{'' @ fst kv @ ''}'') (snd kv) personalized)
       answer (for_in ents)"

section \<open>The handler of \<^verbatim>\<open>GET /chat\<close>\<close>

definition missingParams :: string where
  "missingParams = ''Parameter 'q' (pertanyaan) dan 'sessionId' harus ada.''"

definition serverError :: string where
  "serverError = ''Waduh, ada yang error di server nih. Coba lagi nanti ya.''"

definition apiDefaultAnswer :: string where
  "apiDefaultAnswer = ''Maaf, API eksternal juga bingung.''"

text \<open>Step 4: the search restricted to the items of the session's active context.\<close>

definition contextualSearch ::
  "env \<Rightarrow> config \<Rightarrow> session \<Rightarrow> string \<Rightarrow> qa_item fuse_result option" where
  "contextualSearch e cfg sess userInput =
     (if truthy (s_context sess) then
        (case find (\<lambda>c. Some (ctx_id c) = s_context sess) (contexts cfg) of
           None \<Rightarrow> None
         | Some contextData \<Rightarrow>
             (case ctx_item contextData of
                None \<Rightarrow> None
              | Some m \<Rightarrow>
                  (case fuse_items e (Num 0.5) (as_list m) userInput of
                     [] \<Rightarrow> None
                   | r # _ \<Rightarrow> Some r)))
      else None)"

text \<open>
  Step 5b after the search: the results of the detected intent, sorted by the quotient
  of score and weight, or else the first result of the search.
\<close>

definition weightOf :: "qa_item \<Rightarrow> jsnum" where
  "weightOf it = (case relevanceWeight it of None \<Rightarrow> Num 1.0 | Some w \<Rightarrow> w)"

definition rerank ::
  "env \<Rightarrow> string \<Rightarrow> qa_item fuse_result list \<Rightarrow> qa_item fuse_result option" where
  "rerank e detectedIntent searchResults =
     (let relevantResults = filter (\<lambda>r. intent (item r) = Some detectedIntent) searchResults
      in if relevantResults \<noteq> [] then
           (case js_sort (\<lambda>r. float_div e (score r) (weightOf (item r))) relevantResults of
              [] \<Rightarrow> None
            | r # _ \<Rightarrow> Some r)
         else (case searchResults of [] \<Rightarrow> None | r # _ \<Rightarrow> Some r))"

text \<open>Step 5: intent detection, then the search in the index of the language.\<close>

definition detectIntent :: "env \<Rightarrow> config \<Rightarrow> string \<Rightarrow> string" where
  "detectIntent e cfg userInput =
     (case intentsFuse e cfg userInput of
        [] \<Rightarrow> ''unknown''
      | r # _ \<Rightarrow> int_name (item r))"

definition generalSearch ::
  "env \<Rightarrow> config \<Rightarrow> string \<Rightarrow> string \<Rightarrow> qa_item fuse_result option" where
  "generalSearch e cfg language userInput =
     (let detectedIntent = detectIntent e cfg userInput
      in case qaFuse e cfg language of
           None \<Rightarrow> None
         | Some search \<Rightarrow> rerank e detectedIntent (search userInput))"

definition findBestMatch ::
  "env \<Rightarrow> config \<Rightarrow> session \<Rightarrow> string \<Rightarrow> string \<Rightarrow> qa_item fuse_result option" where
  "findBestMatch e cfg sess language userInput =
     (case contextualSearch e cfg sess userInput of
        Some r \<Rightarrow> Some r
      | None \<Rightarrow> generalSearch e cfg language userInput)"

text \<open>The test of step 6 on a best match.\<close>

definition effectiveThreshold :: "config \<Rightarrow> qa_item \<Rightarrow> jsnum" where
  "effectiveThreshold cfg it = js_or (threshold it) (defaultThreshold (cfg_settings cfg))"

definition accepted :: "config \<Rightarrow> qa_item fuse_result \<Rightarrow> bool" where
  "accepted cfg bestMatch = js_lt (score bestMatch) (effectiveThreshold cfg (item bestMatch))"

text \<open>
  \<^verbatim>\<open>conversationMemory[sessionId]\<close>: under an inherited name the lookup gives the
  inherited object, with the context assigned to it if any; \<open>None\<close> is the undefined
  value, on which the handler creates a session. An inherited object has no history: on
  it \<^verbatim>\<open>session.history.push\<close> throws a TypeError.
\<close>

definition lookupSession :: "memory \<Rightarrow> string \<Rightarrow> session option" where
  "lookupSession mem sid =
     (if sid \<in> set inheritedKeys
      then Some \<lparr> s_history = [],
                  s_context = (case mem sid of None \<Rightarrow> None | Some obj \<Rightarrow> s_context obj) \<rparr>
      else mem sid)"

text \<open>
  The branches below return \<open>Inl\<close> with the table as it is at that moment when a
  TypeError is thrown, and otherwise \<open>Inr\<close> with the response and the table after the
  request. On an inherited object the context is assigned before the push throws.
\<close>

definition localAnswer ::
  "env \<Rightarrow> memory \<Rightarrow> string \<Rightarrow> session \<Rightarrow> string \<Rightarrow> string \<Rightarrow> (string \<times> string) list \<Rightarrow>
   qa_item fuse_result \<Rightarrow> memory + (http_response \<times> memory)" where
  "localAnswer e mem sid sess userInput language foundEntities bestMatch =
     (case getRandomAnswer (random e) (item bestMatch) of
        None \<Rightarrow> Inl mem
      | Some a \<Rightarrow>
          (let answer = personalizeAnswer a foundEntities;
               ctx = (if truthy (nextContextId (item bestMatch))
                      then nextContextId (item bestMatch) else None)
           in if sid \<in> set inheritedKeys
              then Inl (mem(sid \<mapsto> \<lparr> s_history = [], s_context = ctx \<rparr>))
              else Inr (JsonOk \<lparr> res_answer = answer,
                                  res_intent = intent (item bestMatch),
                                  res_score = Some (score bestMatch),
                                  res_source = ''local_qa'',
                                  res_context = ctx,
                                  res_language = language,
                                  res_entities = Some foundEntities \<rparr>,
                        mem(sid \<mapsto> \<lparr> s_history = s_history sess @ [(userInput, answer)],
                                      s_context = ctx \<rparr>))))"

text \<open>Step 8: the fallback item of the language among the standalone items.\<close>

definition staticFallback ::
  "env \<Rightarrow> config \<Rightarrow> memory \<Rightarrow> string \<Rightarrow> session \<Rightarrow> string \<Rightarrow> string \<Rightarrow>
   memory + (http_response \<times> memory)" where
  "staticFallback e cfg mem sid sess userInput language =
     (case find (\<lambda>i. intent i = Some ''fallback'' \<and> lang i = language) (qaItems cfg) of
        None \<Rightarrow> Inr (NoResponse, mem)
      | Some fallbackItem \<Rightarrow>
          (case getRandomAnswer (random e) fallbackItem of
             None \<Rightarrow> Inl mem
           | Some fallbackAnswer \<Rightarrow>
               if sid \<in> set inheritedKeys then Inl mem
               else Inr (JsonOk \<lparr> res_answer = fallbackAnswer,
                                   res_intent = Some ''fallback'',
                                   res_score = None,
                                   res_source = ''local_fallback'',
                                   res_context = None,
                                   res_language = language,
                                   res_entities = None \<rparr>,
                         mem(sid \<mapsto> \<lparr> s_history = s_history sess @ [(userInput, fallbackAnswer)],
                                       s_context = None \<rparr>))))"

text \<open>
  Step 7: the external call when a url is configured, and step 8 after it. Whatever is
  thrown inside the inner \<^verbatim>\<open>try\<close>, the failed push to a missing history too, is caught
  there and leads to step 8.
\<close>

definition fallbackChain ::
  "env \<Rightarrow> config \<Rightarrow> memory \<Rightarrow> string \<Rightarrow> session \<Rightarrow> string \<Rightarrow> string \<Rightarrow>
   memory + (http_response \<times> memory)" where
  "fallbackChain e cfg mem sid sess userInput language =
     (case apiFallback (cfg_settings cfg) of
        None \<Rightarrow> staticFallback e cfg mem sid sess userInput language
      | Some fallbackApi \<Rightarrow>
          (case url fallbackApi of
             None \<Rightarrow> staticFallback e cfg mem sid sess userInput language
           | Some u \<Rightarrow>
               if u = [] then staticFallback e cfg mem sid sess userInput language
               else
                 (case axios_get e u userInput of
                    ApiThrows \<Rightarrow> staticFallback e cfg mem sid sess userInput language
                  | ApiData a \<Rightarrow>
                      (let apiAnswer = (case a of None \<Rightarrow> apiDefaultAnswer
                                        | Some t \<Rightarrow> if t = [] then apiDefaultAnswer else t)
                       in if sid \<in> set inheritedKeys
                          then staticFallback e cfg mem sid sess userInput language
                          else Inr (JsonOk \<lparr> res_answer = apiAnswer,
                                              res_intent = Some ''api_fallback'',
                                              res_score = None,
                                              res_source = ''api_fallback'',
                                              res_context = None,
                                              res_language = language,
                                              res_entities = None \<rparr>,
                                    mem(sid \<mapsto> \<lparr> s_history = s_history sess @ [(userInput, apiAnswer)],
                                                  s_context = None \<rparr>))))))"

text \<open>
  The body of the \<^verbatim>\<open>try\<close> block. An unknown tokenizer name makes \<^verbatim>\<open>new\<close> throw.
\<close>

definition tokenizerType :: "config \<Rightarrow> string" where
  "tokenizerType cfg =
     (case tokenizer (cfg_settings cfg) of
        None \<Rightarrow> ''WordTokenizer''
      | Some t \<Rightarrow> if t = [] then ''WordTokenizer'' else t)"

definition pipeline ::
  "env \<Rightarrow> config \<Rightarrow> memory \<Rightarrow> string \<Rightarrow> session \<Rightarrow> string \<Rightarrow>
   memory + (http_response \<times> memory)" where
  "pipeline e cfg mem sid sess userInput =
     (let language = detectLanguage e cfg userInput
      in case tokenizers e (tokenizerType cfg) of
           None \<Rightarrow> Inl mem
         | Some tokenize \<Rightarrow>
             (let tokens = tokenize (toLowerCase e userInput);
                  foundEntities = recognizeEntities (toLowerCase e) (entities cfg) tokens
              in case findBestMatch e cfg sess language userInput of
                   None \<Rightarrow> fallbackChain e cfg mem sid sess userInput language
                 | Some bestMatch \<Rightarrow>
                     if accepted cfg bestMatch
                     then localAnswer e mem sid sess userInput language foundEntities bestMatch
                     else fallbackChain e cfg mem sid sess userInput language))"

text \<open>The session of an id, created empty when the lookup finds nothing.\<close>

definition newSession :: session where
  "newSession = \<lparr> s_history = [], s_context = None \<rparr>"

definition getOrCreate :: "memory \<Rightarrow> string \<Rightarrow> session \<times> memory" where
  "getOrCreate mem sid =
     (case lookupSession mem sid of
        None \<Rightarrow> (newSession, mem(sid \<mapsto> newSession))
      | Some sess \<Rightarrow> (sess, mem))"

text \<open>
  The handler: the response and the conversation memory after the request. Anything
  thrown inside the \<^verbatim>\<open>try\<close> block becomes the status 500 answer.
\<close>

definition chat :: "env \<Rightarrow> config \<Rightarrow> memory \<Rightarrow> request \<Rightarrow> http_response \<times> memory" where
  "chat e cfg mem req =
     (if \<not> truthy (req_q req) \<or> \<not> truthy (req_sessionId req)
      then (JsonError 400 missingParams, mem)
      else
        (case (req_q req, req_sessionId req) of
           (Some userInput, Some sid) \<Rightarrow>
             (let (sess, mem1) = getOrCreate mem sid
              in case pipeline e cfg mem1 sid sess userInput of
                   Inl thrown \<Rightarrow> (JsonError 500 serverError, thrown)
                 | Inr result \<Rightarrow> result)
         | _ \<Rightarrow> (JsonError 400 missingParams, mem)))"

section \<open>The effective threshold in the words of the specification\<close>

text \<open>
  The specification's effective threshold of an item: the item-level threshold override if
  present, else the global default threshold. It is compared below with
  \<open>effectiveThreshold\<close>, which is what the handler computes.
\<close>

definition spec_effectiveThreshold :: "config \<Rightarrow> qa_item \<Rightarrow> jsnum" where
  "spec_effectiveThreshold cfg it =
     (case threshold it of NaN \<Rightarrow> defaultThreshold (cfg_settings cfg) | Num t \<Rightarrow> Num t
      | PosInf \<Rightarrow> PosInf | NegInf \<Rightarrow> NegInf)"

section \<open>A small knowledge base for concrete runs\<close>

text \<open>
  For the runs: \<^verbatim>\<open>toLowerCase\<close> on ASCII text, where a capital letter becomes the small
  one by setting the bit of weight 32, and a division without rounding.
\<close>

definition lower_char :: "char \<Rightarrow> char" where
  "lower_char c =
     (if 65 \<le> (of_char c :: nat) \<and> (of_char c :: nat) \<le> 90
      then Char (digit0 c) (digit1 c) (digit2 c) (digit3 c) (digit4 c) True (digit6 c) (digit7 c)
      else c)"

definition ascii_lower :: "string \<Rightarrow> string" where
  "ascii_lower s = map lower_char s"

definition exact_div :: "real \<Rightarrow> jsnum \<Rightarrow> jsnum" where
  "exact_div x w =
     (case w of
        NaN \<Rightarrow> NaN
      | Num y \<Rightarrow> if y = 0 then (if x = 0 then NaN else if 0 < x then PosInf else NegInf)
                 else Num (x / y)
      | PosInf \<Rightarrow> Num 0
      | NegInf \<Rightarrow> Num 0)"

definition ex_item :: qa_item where
  "ex_item = \<lparr> lang = ''id'', intent = Some ''order'', questions = [''mau pesan''],
               answers = Many [''Baik {name}, pesanan dicatat.''], relevanceWeight = None,
               threshold = NaN, nextContextId = Some ''payment'' \<rparr>"

definition ex_fallback_item :: qa_item where
  "ex_fallback_item = \<lparr> lang = ''id'', intent = Some ''fallback'', questions = [],
               answers = One ''Maaf, saya belum mengerti.'', relevanceWeight = None,
               threshold = NaN, nextContextId = None \<rparr>"

definition ex_config :: "qa_item list \<Rightarrow> api_fallback option \<Rightarrow> config" where
  "ex_config standalone api =
     \<lparr> cfg_settings = \<lparr> defaultThreshold = Num 0.4, autoDetectLanguage = None,
                        tokenizer = None, apiFallback = api \<rparr>,
       intents = [],
       entities = [\<lparr> ent_name = ''name'', ent_values = Many [''Budi'', ''Sari''] \<rparr>],
       qaItems = standalone,
       contexts = [\<lparr> ctx_id = ''order'', ctx_item = Some (Many [ex_item]) \<rparr>] \<rparr>"

text \<open>A tokenizer that cuts at spaces.\<close>

definition ex_tokenize :: "string \<Rightarrow> string list" where
  "ex_tokenize s =
     filter (\<lambda>w. w \<noteq> [])
       (foldr (\<lambda>c ws. if c = CHR '' '' then [] # ws else (c # hd ws) # tl ws) s [[]])"

text \<open>
  What a run takes as given: the search gives every item that has a question the score
  \<open>sc\<close> when \<open>sc\<close> is within the threshold of the index, the intent search finds
  nothing, \<^verbatim>\<open>Math.random()\<close> is 0 and the outbound call ends as \<open>out\<close>.
\<close>

definition ex_env :: "real \<Rightarrow> api_outcome \<Rightarrow> env" where
  "ex_env sc out =
     \<lparr> lang_detect = (\<lambda>_. []),
       tokenizers = (\<lambda>n. if n = ''WordTokenizer'' then Some ex_tokenize else None),
       fuse_items = (\<lambda>thr items _.
          if (case thr of Num t \<Rightarrow> sc \<le> t | PosInf \<Rightarrow> True | NaN \<Rightarrow> False | NegInf \<Rightarrow> False)
          then map (\<lambda>i. \<lparr> item = i, score = sc \<rparr>) (filter (\<lambda>i. questions i \<noteq> []) items)
          else []),
       fuse_intents = (\<lambda>_ _ _. []),
       random = 0,
       axios_get = (\<lambda>_ _. out),
       toLowerCase = ascii_lower,
       float_div = exact_div \<rparr>"

definition ex_memory :: memory where
  "ex_memory = [''s1'' \<mapsto> \<lparr> s_history = [(''halo'', ''Halo!'')], s_context = Some ''order'' \<rparr>]"


text \<open>An external fallback endpoint.\<close>

definition ex_api :: "api_fallback option" where
  "ex_api = Some \<lparr> url = Some ''http://api.example/ask'' \<rparr>"

text \<open>
  For the re-ranking: a search result of intent \<open>order\<close> with the given score and
  weight, a knowledge base whose standalone items are those of two such results, with the
  given intents, and a run in which the search returns the two results and the intent
  search every intent.
\<close>

definition ex_candidate :: "real \<Rightarrow> real \<Rightarrow> qa_item fuse_result" where
  "ex_candidate sc w =
     \<lparr> item = \<lparr> lang = ''id'', intent = Some ''order'', questions = [''mau pesan''],
                 answers = One ''Baik.'', relevanceWeight = Some (Num w), threshold = NaN,
                 nextContextId = None \<rparr>,
       score = sc \<rparr>"

definition ex_rank_config :: "intent_def list \<Rightarrow> config" where
  "ex_rank_config ints =
     (ex_config [item (ex_candidate 0.30 1.0), item (ex_candidate 0.35 2.0)] None)
       \<lparr> intents := ints \<rparr>"

definition ex_rank_env :: env where
  "ex_rank_env =
     (ex_env 0.1 ApiThrows)
       \<lparr> fuse_items := (\<lambda>thr items _.
            filter (\<lambda>r. item r \<in> set items) [ex_candidate 0.30 1.0, ex_candidate 0.35 2.0]),
         fuse_intents := (\<lambda>thr ints _. map (\<lambda>i. \<lparr> item = i, score = 0.1 \<rparr>) ints) \<rparr>"

section \<open>Unfolding the definitions on concrete runs\<close>

lemmas search_defs =
  findBestMatch_def contextualSearch_def generalSearch_def detectIntent_def intentsFuse_def
  qaFuse_def allQaItems_def indexThreshold_def rerank_def weightOf_def js_sort_def js_gt_def

lemmas handler_defs =
  chat_def getOrCreate_def lookupSession_def inheritedKeys_def newSession_def pipeline_def
  detectLanguage_def tokenizerType_def accepted_def effectiveThreshold_def js_or_def js_lt_def
  truthy_def localAnswer_def fallbackChain_def staticFallback_def getRandomAnswer_def Let_def

lemmas example_defs =
  ex_env_def ex_config_def ex_memory_def ex_item_def ex_fallback_item_def ex_tokenize_def
  ascii_lower_def lower_char_def exact_div_def

lemmas text_defs =
  recognizeEntities_def entityValues_def
  personalizeAnswer_def for_in_def is_array_index_def is_digit_def js_replace_def

section \<open>Requests without a parameter\<close>

text \<open>
  C7. A request whose utterance or session id is missing (undefined or empty) is answered
  with status 400 and the message \<open>missingParams\<close>, and the conversation memory is
  returned as it was: no session is created and none is changed.
\<close>

theorem chat_missing_parameter:
  "\<not> truthy (req_q req) \<or> \<not> truthy (req_sessionId req) \<Longrightarrow>
   chat e cfg mem req = (JsonError 400 missingParams, mem) \<and> missingParams \<noteq> []"
  by (simp add: chat_def missingParams_def)

theorem chat_missing_parameter_witness:
  "\<not> truthy (req_q \<lparr> req_q = None, req_sessionId = Some ''s2'' \<rparr>) \<and>
   chat (ex_env 0.45 ApiThrows) (ex_config [] None) ex_memory
        \<lparr> req_q = None, req_sessionId = Some ''s2'' \<rparr>
     = (JsonError 400 missingParams, ex_memory) \<and>
   snd (chat (ex_env 0.45 ApiThrows) (ex_config [] None) ex_memory
          \<lparr> req_q = None, req_sessionId = Some ''s2'' \<rparr>) ''s2'' = None"
  using chat_missing_parameter [of "\<lparr> req_q = None, req_sessionId = Some ''s2'' \<rparr>"
          "ex_env 0.45 ApiThrows" "ex_config [] None" ex_memory]
  by (simp add: truthy_def ex_memory_def)

section \<open>Entity recognition\<close>







section \<open>Re-ranking of the search results\<close>

lemma js_gt_irrefl: "\<not> js_gt a a"
  by (cases a) (simp_all add: js_gt_def)

lemma js_gt_asym: "js_gt a b \<Longrightarrow> \<not> js_gt b a"
  by (cases a; cases b) (simp_all add: js_gt_def)

lemma js_not_gt_trans:
  "b \<noteq> NaN \<Longrightarrow> \<not> js_gt a b \<Longrightarrow> \<not> js_gt b c \<Longrightarrow> \<not> js_gt a c"
  by (cases a; cases b; cases c) (simp_all add: js_gt_def)

lemma js_sort_Cons: "js_sort key (x # xs) = insert_by key x (js_sort key xs)"
  by (simp add: js_sort_def)

lemma insert_by_not_Nil: "insert_by key x ys \<noteq> []"
  by (cases ys) simp_all

lemma js_sort_eq_Nil: "js_sort key xs = [] \<longleftrightarrow> xs = []"
  by (cases xs) (simp_all add: js_sort_Cons insert_by_not_Nil, simp add: js_sort_def)

lemma hd_insert_by:
  "hd (insert_by key x ys) = (if ys \<noteq> [] \<and> js_gt (key x) (key (hd ys)) then hd ys else x)"
  by (cases ys) simp_all

lemma hd_js_sort_Cons:
  "hd (js_sort key (x # xs)) =
     (if xs \<noteq> [] \<and> js_gt (key x) (key (hd (js_sort key xs))) then hd (js_sort key xs) else x)"
  by (simp add: js_sort_Cons hd_insert_by js_sort_eq_Nil)

lemma hd_js_sort_in: "xs \<noteq> [] \<Longrightarrow> hd (js_sort key xs) \<in> set xs"
  by (induction xs) (auto simp: hd_js_sort_Cons)

text \<open>The head of the sorted list has a least key, when the keys are not \<^verbatim>\<open>NaN\<close>.\<close>

lemma hd_js_sort_least:
  assumes "\<forall>r \<in> set xs. key r \<noteq> NaN" and "xs \<noteq> []"
  shows "\<forall>r \<in> set xs. \<not> js_gt (key (hd (js_sort key xs))) (key r)"
  using assms
proof (induction xs)
  case Nil
  then show ?case by simp
next
  case (Cons x xs)
  show ?case
  proof (cases "xs = []")
    case True
    then show ?thesis by (simp add: hd_js_sort_Cons js_gt_irrefl)
  next
    case False
    let ?m = "hd (js_sort key xs)"
    from Cons False have least: "\<forall>r \<in> set xs. \<not> js_gt (key ?m) (key r)"
      by simp
    from False have "?m \<in> set xs" by (rule hd_js_sort_in)
    with Cons.prems have m: "key ?m \<noteq> NaN" by simp
    show ?thesis
    proof (cases "js_gt (key x) (key ?m)")
      case True
      with False least show ?thesis
        by (auto simp: hd_js_sort_Cons dest: js_gt_asym)
    next
      case nogt: False
      have "\<not> js_gt (key x) (key r)" if "r \<in> set xs" for r
        using js_not_gt_trans [OF m nogt] least that by blast
      with nogt show ?thesis
        by (auto simp: hd_js_sort_Cons js_gt_irrefl)
    qed
  qed
qed

text \<open>Among the elements of least key the head of the sorted list is the first.\<close>

lemma hd_js_sort_first:
  "xs \<noteq> [] \<Longrightarrow>
   find (\<lambda>r. \<not> js_gt (key r) (key (hd (js_sort key xs)))) xs = Some (hd (js_sort key xs))"
proof (induction xs)
  case Nil
  then show ?case by simp
next
  case (Cons x xs)
  show ?case
  proof (cases "xs \<noteq> [] \<and> js_gt (key x) (key (hd (js_sort key xs)))")
    case True
    with Cons show ?thesis by (simp add: hd_js_sort_Cons)
  next
    case False
    then have "hd (js_sort key (x # xs)) = x"
      by (auto simp: hd_js_sort_Cons)
    then show ?thesis by (simp add: js_gt_irrefl)
  qed
qed

lemma rerank_relevant:
  assumes "filter (\<lambda>r. intent (item r) = Some d) rs \<noteq> []"
  shows "rerank e d rs =
           Some (hd (js_sort (\<lambda>r. float_div e (score r) (weightOf (item r)))
                   (filter (\<lambda>r. intent (item r) = Some d) rs)))"
proof -
  let ?rel = "filter (\<lambda>r. intent (item r) = Some d) rs"
  let ?key = "\<lambda>r. float_div e (score r) (weightOf (item r))"
  from assms have "js_sort ?key ?rel \<noteq> []"
    by (simp add: js_sort_eq_Nil)
  then obtain r rest where "js_sort ?key ?rel = r # rest"
    by (cases "js_sort ?key ?rel") auto
  with assms show ?thesis
    by (simp add: rerank_def Let_def)
qed

lemma rerank_no_relevant:
  assumes "filter (\<lambda>r. intent (item r) = Some d) rs = []"
  shows "rerank e d rs = (case rs of [] \<Rightarrow> None | r # _ \<Rightarrow> Some r)"
  using assms by (simp add: rerank_def Let_def)

lemma generalSearch_indexed:
  assumes "language \<in> lang ` set (allQaItems cfg)"
  shows "generalSearch e cfg language userInput =
           rerank e
             (case fuse_intents e (indexThreshold cfg) (intents cfg) userInput of
                [] \<Rightarrow> ''unknown'' | r # _ \<Rightarrow> int_name (item r))
             (fuse_items e (indexThreshold cfg)
                (filter (\<lambda>i. lang i = language) (allQaItems cfg)) userInput)"
  using assms by (simp add: generalSearch_def detectIntent_def intentsFuse_def qaFuse_def)

text \<open>
  C5. Let the index of the detected language exist, let \<open>searchResults\<close> be what its
  search returns, \<open>detectedIntent\<close> the name of the first result of the intent search, or
  \<open>unknown\<close>, and \<open>relevant\<close> the search results of that intent, none with a quotient
  that is \<^verbatim>\<open>NaN\<close>. The quotient is the one the machine computes. When \<open>relevant\<close> is not
  empty, the general search chooses one of its members, no member has a smaller quotient
  of score and weight, and the chosen one is the first of least quotient; when it is
  empty, the first search result is chosen; so a search that returns something always
  yields a candidate. An item without a weight counts with weight 1. Of two candidates
  of the detected intent, the first with score 0.30 and weight 1, the second with score
  0.35 and weight 2 (the scores up to \<open>10^-9\<close>, the two divisions exact), the second is
  chosen. Without a match in the active context the best match is the one of the general
  search.
\<close>

theorem generalSearch_soft_preference:
  assumes "language \<in> lang ` set (allQaItems cfg)"
    and "searchResults = fuse_items e (indexThreshold cfg)
                           (filter (\<lambda>i. lang i = language) (allQaItems cfg)) userInput"
    and "detectedIntent = (case fuse_intents e (indexThreshold cfg) (intents cfg) userInput of
                             [] \<Rightarrow> ''unknown'' | r # _ \<Rightarrow> int_name (item r))"
    and "relevant = filter (\<lambda>r. intent (item r) = Some detectedIntent) searchResults"
    and "\<forall>r \<in> set relevant. float_div e (score r) (weightOf (item r)) \<noteq> NaN"
  shows "(relevant \<noteq> [] \<longrightarrow>
            (\<exists>best. generalSearch e cfg language userInput = Some best \<and>
               best \<in> set relevant \<and>
               (\<forall>r \<in> set relevant.
                  \<not> js_gt (float_div e (score best) (weightOf (item best)))
                          (float_div e (score r) (weightOf (item r)))) \<and>
               find (\<lambda>r. \<not> js_gt (float_div e (score r) (weightOf (item r)))
                                 (float_div e (score best) (weightOf (item best)))) relevant
                 = Some best)) \<and>
         (relevant = [] \<longrightarrow> searchResults \<noteq> [] \<longrightarrow>
            generalSearch e cfg language userInput = Some (hd searchResults)) \<and>
         (searchResults \<noteq> [] \<longrightarrow> generalSearch e cfg language userInput \<noteq> None) \<and>
         weightOf (it \<lparr> relevanceWeight := None \<rparr>) = Num 1 \<and>
         (searchResults = [c1, c2] \<and> relevant = [c1, c2] \<and>
          \<bar>score c1 - 0.30\<bar> \<le> 1 / 10 ^ 9 \<and> weightOf (item c1) = Num 1 \<and>
          \<bar>score c2 - 0.35\<bar> \<le> 1 / 10 ^ 9 \<and> weightOf (item c2) = Num 2 \<and>
          float_div e (score c1) (Num 1) = Num (score c1) \<and>
          float_div e (score c2) (Num 2) = Num (score c2 / 2) \<longrightarrow>
            generalSearch e cfg language userInput = Some c2) \<and>
         (contextualSearch e cfg sess userInput = None \<longrightarrow>
            findBestMatch e cfg sess language userInput = generalSearch e cfg language userInput)"
proof -
  let ?key = "\<lambda>r. float_div e (score r) (weightOf (item r))"
  have gs: "generalSearch e cfg language userInput = rerank e detectedIntent searchResults"
    using assms(1) by (simp add: generalSearch_indexed assms(2,3))
  have rel: "rerank e detectedIntent searchResults = Some (hd (js_sort ?key relevant))"
    if "relevant \<noteq> []"
    using that rerank_relevant [of detectedIntent searchResults e] by (simp add: assms(4))
  have norel: "rerank e detectedIntent searchResults = Some (hd searchResults)"
    if "relevant = []" and "searchResults \<noteq> []"
    using that rerank_no_relevant [of detectedIntent searchResults e]
    by (cases searchResults) (simp_all add: assms(4))
  have one: "\<exists>best. generalSearch e cfg language userInput = Some best \<and>
               best \<in> set relevant \<and>
               (\<forall>r \<in> set relevant. \<not> js_gt (?key best) (?key r)) \<and>
               find (\<lambda>r. \<not> js_gt (?key r) (?key best)) relevant = Some best"
    if ne: "relevant \<noteq> []"
  proof -
    let ?best = "hd (js_sort ?key relevant)"
    have "?best \<in> set relevant"
      using ne by (rule hd_js_sort_in)
    moreover have "\<forall>r \<in> set relevant. \<not> js_gt (?key ?best) (?key r)"
      using assms(5) ne by (rule hd_js_sort_least)
    moreover have "find (\<lambda>r. \<not> js_gt (?key r) (?key ?best)) relevant = Some ?best"
      using ne by (rule hd_js_sort_first)
    ultimately show ?thesis
      using gs rel [OF ne] by (intro exI [of _ ?best]) simp
  qed
  have two: "generalSearch e cfg language userInput = Some (hd searchResults)"
    if "relevant = []" and "searchResults \<noteq> []"
    using that gs norel by simp
  have three: "generalSearch e cfg language userInput \<noteq> None" if "searchResults \<noteq> []"
  proof (cases "relevant = []")
    case True
    with that two show ?thesis by simp
  next
    case False
    with gs rel show ?thesis by simp
  qed
  have four: "weightOf (it \<lparr> relevanceWeight := None \<rparr>) = Num 1"
    by (simp add: weightOf_def)
  have five: "generalSearch e cfg language userInput = Some c2"
    if ex: "searchResults = [c1, c2] \<and> relevant = [c1, c2] \<and>
          \<bar>score c1 - 0.30\<bar> \<le> 1 / 10 ^ 9 \<and> weightOf (item c1) = Num 1 \<and>
          \<bar>score c2 - 0.35\<bar> \<le> 1 / 10 ^ 9 \<and> weightOf (item c2) = Num 2 \<and>
          float_div e (score c1) (Num 1) = Num (score c1) \<and>
          float_div e (score c2) (Num 2) = Num (score c2 / 2)"
  proof -
    from ex have h1: "\<bar>score c1 - 0.30\<bar> \<le> 1 / 10 ^ 9"
      and h2: "\<bar>score c2 - 0.35\<bar> \<le> 1 / 10 ^ 9"
      by blast+
    from abs_le_D2 [OF h1] abs_le_D1 [OF h2] have "score c2 / 2 < score c1"
      by simp
    with ex have "js_gt (?key c1) (?key c2)"
      by (simp add: js_gt_def)
    with ex have "hd (js_sort ?key relevant) = c2"
      by (simp add: js_sort_def)
    moreover from ex have "relevant \<noteq> []" by simp
    ultimately show ?thesis using gs rel by simp
  qed
  have six: "findBestMatch e cfg sess language userInput = generalSearch e cfg language userInput"
    if "contextualSearch e cfg sess userInput = None"
    using that by (simp add: findBestMatch_def)
  from one two three four five six show ?thesis
    by (intro conjI impI)
qed

theorem generalSearch_soft_preference_witness:
  "detectIntent ex_rank_env (ex_rank_config [\<lparr> int_name = ''order'', int_keywords = [''pesan''] \<rparr>])
     ''mau pesan'' = ''order'' \<and>
   generalSearch ex_rank_env (ex_rank_config [\<lparr> int_name = ''order'', int_keywords = [''pesan''] \<rparr>])
     ''id'' ''mau pesan'' = Some (ex_candidate 0.35 2.0) \<and>
   detectIntent ex_rank_env (ex_rank_config []) ''mau pesan'' = ''unknown'' \<and>
   generalSearch ex_rank_env (ex_rank_config []) ''id'' ''mau pesan'' = Some (ex_candidate 0.30 1.0)"
proof -
  let ?e = ex_rank_env
  let ?cfg = "ex_rank_config [\<lparr> int_name = ''order'', int_keywords = [''pesan''] \<rparr>]"
  let ?bare = "ex_rank_config []"
  let ?c1 = "ex_candidate 0.30 1.0" and ?c2 = "ex_candidate 0.35 2.0"
  have idx: "''id'' \<in> lang ` set (allQaItems (ex_rank_config ints))" for ints
    by (simp add: allQaItems_def ex_rank_config_def ex_config_def ex_candidate_def)
  have res: "[?c1, ?c2] = fuse_items ?e (indexThreshold (ex_rank_config ints))
                            (filter (\<lambda>i. lang i = ''id'') (allQaItems (ex_rank_config ints)))
                            ''mau pesan''" for ints
    by (simp add: ex_rank_env_def allQaItems_def ex_rank_config_def ex_config_def
          ex_candidate_def ex_item_def)
  have det: "''order'' = (case fuse_intents ?e (indexThreshold ?cfg) (intents ?cfg) ''mau pesan'' of
                            [] \<Rightarrow> ''unknown'' | r # _ \<Rightarrow> int_name (item r))"
    by (simp add: ex_rank_env_def ex_rank_config_def)
  have det0: "''unknown'' = (case fuse_intents ?e (indexThreshold ?bare) (intents ?bare) ''mau pesan'' of
                            [] \<Rightarrow> ''unknown'' | r # _ \<Rightarrow> int_name (item r))"
    by (simp add: ex_rank_env_def ex_rank_config_def)
  have rel: "[?c1, ?c2] = filter (\<lambda>r. intent (item r) = Some ''order'') [?c1, ?c2]"
    by (simp add: ex_candidate_def)
  have rel0: "[] = filter (\<lambda>r. intent (item r) = Some ''unknown'') [?c1, ?c2]"
    by (simp add: ex_candidate_def)
  have num: "\<forall>r \<in> set [?c1, ?c2]. float_div ?e (score r) (weightOf (item r)) \<noteq> NaN"
    by (simp add: ex_rank_env_def ex_env_def exact_div_def weightOf_def ex_candidate_def)
  have num0: "\<forall>r \<in> set []. float_div ?e (score r) (weightOf (item r)) \<noteq> NaN"
    by simp
  have pair: "[?c1, ?c2] = [?c1, ?c2] \<and> [?c1, ?c2] = [?c1, ?c2] \<and>
          \<bar>score ?c1 - 0.30\<bar> \<le> 1 / 10 ^ 9 \<and> weightOf (item ?c1) = Num 1 \<and>
          \<bar>score ?c2 - 0.35\<bar> \<le> 1 / 10 ^ 9 \<and> weightOf (item ?c2) = Num 2 \<and>
          float_div ?e (score ?c1) (Num 1) = Num (score ?c1) \<and>
          float_div ?e (score ?c2) (Num 2) = Num (score ?c2 / 2)"
    by (simp add: ex_rank_env_def ex_env_def exact_div_def weightOf_def ex_candidate_def)
  note ranked = generalSearch_soft_preference [OF idx res det rel num, where ?c1.0 = ?c1 and ?c2.0 = ?c2]
  from ranked pair
  have a: "generalSearch ?e ?cfg ''id'' ''mau pesan'' = Some ?c2"
    by blast
  note plain = generalSearch_soft_preference [OF idx res det0 rel0 num0]
  from plain have "generalSearch ?e ?bare ''id'' ''mau pesan'' = Some (hd [?c1, ?c2])"
    by blast
  then have b: "generalSearch ?e ?bare ''id'' ''mau pesan'' = Some ?c1"
    by simp
  have c: "detectIntent ?e ?cfg ''mau pesan'' = ''order''"
    using det by (simp add: detectIntent_def intentsFuse_def)
  have d: "detectIntent ?e ?bare ''mau pesan'' = ''unknown''"
    using det0 by (simp add: detectIntent_def intentsFuse_def)
  from a b c d show ?thesis by simp
qed

section \<open>Personalization of the answer\<close>

lemma split_first_absent: "\<not> sublist pat s \<Longrightarrow> split_first pat s = None"
proof (induction s)
  case Nil
  then show ?case by auto
next
  case (Cons c s)
  then show ?case by (simp add: sublist_Cons_right)
qed

lemma split_first_earliest:
  "(\<forall>p q. pre @ pat @ post = p @ pat @ q \<longrightarrow> length pre \<le> length p) \<Longrightarrow>
   split_first pat (pre @ pat @ post) = Some (pre, post)"
proof (induction pre)
  case Nil
  show ?case
  proof (cases "pat @ post")
    case Nil
    then show ?thesis by simp
  next
    case (Cons a list)
    have "prefix pat (pat @ post)" by simp
    moreover have "drop (length pat) (pat @ post) = post" by simp
    ultimately show ?thesis using Cons by simp
  qed
next
  case (Cons c pre)
  have not_prefix: "\<not> prefix pat (c # pre @ pat @ post)"
  proof
    assume "prefix pat (c # pre @ pat @ post)"
    then obtain q where "c # pre @ pat @ post = pat @ q"
      by (auto simp: prefix_def)
    then have "(c # pre) @ pat @ post = [] @ pat @ q" by simp
    with Cons.prems have "length (c # pre) \<le> length ([] :: string)" by blast
    then show False by simp
  qed
  have "\<forall>p q. pre @ pat @ post = p @ pat @ q \<longrightarrow> length pre \<le> length p"
  proof (intro allI impI)
    fix p q
    assume "pre @ pat @ post = p @ pat @ q"
    then have "(c # pre) @ pat @ post = (c # p) @ pat @ q" by simp
    with Cons.prems have "length (c # pre) \<le> length (c # p)" by blast
    then show "length pre \<le> length p" by simp
  qed
  then have "split_first pat (pre @ pat @ post) = Some (pre, post)"
    by (rule Cons.IH)
  with not_prefix show ?case by simp
qed

text \<open>Conversely, what \<open>split_first\<close> finds is an occurrence, and the earliest one.\<close>

lemma split_first_sound:
  "split_first pat s = Some (pre, post) \<Longrightarrow>
   s = pre @ pat @ post \<and> (\<forall>p q. s = p @ pat @ q \<longrightarrow> length pre \<le> length p)"
proof (induction s arbitrary: pre)
  case Nil
  then show ?case by (simp split: if_splits)
next
  case (Cons c s)
  show ?case
  proof (cases "prefix pat (c # s)")
    case True
    with Cons.prems have "pre = []" and "post = drop (length pat) (c # s)"
      by simp_all
    moreover from True have "c # s = pat @ drop (length pat) (c # s)"
      by (metis append_eq_conv_conj prefix_def)
    ultimately show ?thesis by simp
  next
    case False
    with Cons.prems obtain pre' where sf: "split_first pat s = Some (pre', post)"
      and pre: "pre = c # pre'"
      by (auto split: option.splits)
    from Cons.IH [OF sf] have eq: "s = pre' @ pat @ post"
      and least: "\<forall>p q. s = p @ pat @ q \<longrightarrow> length pre' \<le> length p"
      by simp_all
    have "\<forall>p q. c # s = p @ pat @ q \<longrightarrow> length pre \<le> length p"
    proof (intro allI impI)
      fix p q
      assume a: "c # s = p @ pat @ q"
      show "length pre \<le> length p"
      proof (cases p)
        case Nil
        with a have "prefix pat (c # s)" by (simp add: prefix_def)
        with False show ?thesis by simp
      next
        case (Cons d p')
        with a have "s = p' @ pat @ q" by simp
        with least have "length pre' \<le> length p'" by blast
        with pre Cons show ?thesis by simp
      qed
    qed
    with eq pre show ?thesis by simp
  qed
qed

lemma getSubstitution_plain:
  "\<not> expands v \<Longrightarrow> getSubstitution matched pre post v = v"
  by (induction matched pre post v rule: getSubstitution.induct) auto

lemma js_replace_absent: "\<not> sublist pat s \<Longrightarrow> js_replace pat v s = s"
  by (simp add: js_replace_def split_first_absent)

lemma set_for_in: "set (for_in ents) = set ents"
  by (auto simp: for_in_def)

lemma length_for_in: "length (for_in ents) = length ents"
  by (simp add: for_in_def sum_length_filter_compl)

lemma for_in_single: "for_in [kv] = [kv]"
  by (simp add: for_in_def)

lemma for_in_plain_keys:
  "\<forall>kv \<in> set ents. \<not> is_array_index (fst kv) \<Longrightarrow> for_in ents = ents"
  by (simp add: for_in_def)

lemma foldl_replace_absent:
  "\<forall>kv \<in> set xs. \<not> sublist (''{'' @ fst kv @ ''}'') t \<Longrightarrow>
   foldl (\<lambda>personalized kv. js_replace (''{'' @ fst kv @ ''}'') (snd kv) personalized) t xs = t"
  by (induction xs) (simp_all add: js_replace_absent)

text \<open>
  C9, amended. The entities of the mapping are applied one after the other, in the order
  in which \<^verbatim>\<open>for...in\<close> visits the keys (\<open>for_in\<close>: every entity once, and in insertion
  order when no key is an array index), each to the text as the earlier ones left it. One
  entity leaves a text without its placeholder \<open>{k}\<close> as it is; in a text with the
  placeholder it replaces the earliest occurrence by its value, provided the value has
  none of the patterns \<^verbatim>\<open>$$\<close>, \<^verbatim>\<open>$&\<close>, \<^verbatim>\<open>$`\<close>, \<^verbatim>\<open>$'\<close>, and keeps the text before and
  after it, with every later occurrence and every other placeholder. A template in which
  no placeholder of the mapping occurs is returned unchanged.
\<close>

theorem personalizeAnswer_sequential:
  "personalizeAnswer template ents =
     foldl (\<lambda>text kv. personalizeAnswer text [kv]) template (for_in ents) \<and>
   set (for_in ents) = set ents \<and> length (for_in ents) = length ents \<and>
   ((\<forall>kv \<in> set ents. \<not> is_array_index (fst kv)) \<longrightarrow> for_in ents = ents) \<and>
   (\<not> sublist (''{'' @ k @ ''}'') text \<longrightarrow> personalizeAnswer text [(k, v)] = text) \<and>
   (\<not> expands v \<longrightarrow>
    (\<forall>p q. pre @ (''{'' @ k @ ''}'') @ post = p @ (''{'' @ k @ ''}'') @ q \<longrightarrow> length pre \<le> length p) \<longrightarrow>
      personalizeAnswer (pre @ (''{'' @ k @ ''}'') @ post) [(k, v)] = pre @ v @ post) \<and>
   ((\<forall>kv \<in> set ents. \<not> sublist (''{'' @ fst kv @ ''}'') template) \<longrightarrow>
      personalizeAnswer template ents = template)"
proof (intro conjI impI)
  show "personalizeAnswer template ents =
          foldl (\<lambda>text kv. personalizeAnswer text [kv]) template (for_in ents)"
    by (simp add: personalizeAnswer_def for_in_single)
next
  show "set (for_in ents) = set ents"
    by (rule set_for_in)
next
  show "length (for_in ents) = length ents"
    by (rule length_for_in)
next
  assume "\<forall>kv \<in> set ents. \<not> is_array_index (fst kv)"
  then show "for_in ents = ents"
    by (rule for_in_plain_keys)
next
  assume "\<not> sublist (''{'' @ k @ ''}'') text"
  then show "personalizeAnswer text [(k, v)] = text"
    by (simp add: personalizeAnswer_def for_in_single js_replace_absent)
next
  assume "\<not> expands v"
    and "\<forall>p q. pre @ (''{'' @ k @ ''}'') @ post = p @ (''{'' @ k @ ''}'') @ q \<longrightarrow> length pre \<le> length p"
  then show "personalizeAnswer (pre @ (''{'' @ k @ ''}'') @ post) [(k, v)] = pre @ v @ post"
    by (simp add: personalizeAnswer_def for_in_single js_replace_def split_first_earliest
          getSubstitution_plain del: append_assoc append.simps)
next
  assume "\<forall>kv \<in> set ents. \<not> sublist (''{'' @ fst kv @ ''}'') template"
  then show "personalizeAnswer template ents = template"
    unfolding personalizeAnswer_def by (intro foldl_replace_absent) (simp add: set_for_in)
qed

theorem personalizeAnswer_sequential_witness:
  "personalizeAnswer ''Halo, apa kabar?'' [(''name'', ''budi'')] = ''Halo, apa kabar?'' \<and>
   personalizeAnswer ''Cuaca di {city} cerah, {city} {day}'' [(''city'', ''jakarta'')]
     = ''Cuaca di jakarta cerah, {city} {day}'' \<and>
   personalizeAnswer ''Harga {price}'' [(''price'', ''$5'')] = ''Harga $5'' \<and>
   personalizeAnswer ''Halo {name} dari {city}'' [(''name'', ''budi''), (''city'', ''jakarta'')]
     = ''Halo budi dari jakarta''"
proof -
  have absent: "\<forall>kv \<in> set [(''name'', ''budi'')]. \<not> sublist (''{'' @ fst kv @ ''}'') ''Halo, apa kabar?''"
    by (simp add: sublist_code)
  have plain: "\<not> expands ''jakarta''" and dollar: "\<not> expands ''$5''"
    by simp_all
  have "split_first ''{city}'' ''Cuaca di {city} cerah, {city} {day}''
          = Some (''Cuaca di '', '' cerah, {city} {day}'')"
    by simp
  from split_first_sound [OF this]
  have earliest: "\<forall>p q. ''Cuaca di '' @ (''{'' @ ''city'' @ ''}'') @ '' cerah, {city} {day}''
                     = p @ (''{'' @ ''city'' @ ''}'') @ q \<longrightarrow> length ''Cuaca di '' \<le> length p"
    by simp
  have "split_first ''{price}'' ''Harga {price}'' = Some (''Harga '', [])"
    by simp
  from split_first_sound [OF this]
  have earliest': "\<forall>p q. ''Harga '' @ (''{'' @ ''price'' @ ''}'') @ []
                     = p @ (''{'' @ ''price'' @ ''}'') @ q \<longrightarrow> length ''Harga '' \<le> length p"
    by simp
  note first = personalizeAnswer_sequential
     [where ents = "[(''name'', ''budi'')]" and template = "''Halo, apa kabar?''" and v = "''jakarta''"
        and pre = "''Cuaca di ''" and k = "''city''" and post = "'' cerah, {city} {day}''"]
  note second = personalizeAnswer_sequential
     [where v = "''$5''" and pre = "''Harga ''" and k = "''price''" and post = "[]"]
  from first absent have one: "personalizeAnswer ''Halo, apa kabar?'' [(''name'', ''budi'')] = ''Halo, apa kabar?''"
    by blast
  from first plain earliest
  have "personalizeAnswer (''Cuaca di '' @ (''{'' @ ''city'' @ ''}'') @ '' cerah, {city} {day}'') [(''city'', ''jakarta'')]
          = ''Cuaca di '' @ ''jakarta'' @ '' cerah, {city} {day}''"
    by blast
  then have two: "personalizeAnswer ''Cuaca di {city} cerah, {city} {day}'' [(''city'', ''jakarta'')]
     = ''Cuaca di jakarta cerah, {city} {day}''"
    by simp
  from second dollar earliest'
  have "personalizeAnswer (''Harga '' @ (''{'' @ ''price'' @ ''}'') @ []) [(''price'', ''$5'')]
          = ''Harga '' @ ''$5'' @ []"
    by blast
  then have three: "personalizeAnswer ''Harga {price}'' [(''price'', ''$5'')] = ''Harga $5''"
    by simp
  note chain = personalizeAnswer_sequential
     [where template = "''Halo {name} dari {city}''"
        and ents = "[(''name'', ''budi''), (''city'', ''jakarta'')]"]
  have keys: "\<forall>kv \<in> set [(''name'', ''budi''), (''city'', ''jakarta'')]. \<not> is_array_index (fst kv)"
    by (simp add: is_array_index_def is_digit_def)
  from chain [THEN conjunct2, THEN conjunct2, THEN conjunct2, THEN conjunct1] keys
  have order: "for_in [(''name'', ''budi''), (''city'', ''jakarta'')]
                 = [(''name'', ''budi''), (''city'', ''jakarta'')]"
    by (rule mp)
  have step1: "personalizeAnswer ''Halo {name} dari {city}'' [(''name'', ''budi'')]
                 = ''Halo budi dari {city}''"
    by (simp add: text_defs)
  have step2: "personalizeAnswer ''Halo budi dari {city}'' [(''city'', ''jakarta'')]
                 = ''Halo budi dari jakarta''"
    by (simp add: text_defs)
  have "personalizeAnswer ''Halo {name} dari {city}'' [(''name'', ''budi''), (''city'', ''jakarta'')]
          = foldl (\<lambda>text kv. personalizeAnswer text [kv]) ''Halo {name} dari {city}''
              (for_in [(''name'', ''budi''), (''city'', ''jakarta'')])"
    by (rule chain [THEN conjunct1])
  also have "\<dots> = personalizeAnswer (personalizeAnswer ''Halo {name} dari {city}'' [(''name'', ''budi'')])
                      [(''city'', ''jakarta'')]"
    by (simp only: order foldl.simps)
  also have "\<dots> = ''Halo budi dari jakarta''"
    by (simp only: step1 step2)
  finally have four: "personalizeAnswer ''Halo {name} dari {city}''
                        [(''name'', ''budi''), (''city'', ''jakarta'')] = ''Halo budi dari jakarta''" .
  from one two three four show ?thesis by simp
qed

text \<open>
  Two runs against the claim as it stands. The placeholder \<open>{ab}\<close> does not occur in the
  template \<open>{{a}b}\<close>, yet it arises when \<open>{a}\<close> is replaced, and the entity \<open>ab\<close> is then
  applied to it. And a value with a replacement pattern is not inserted as it is,
  although the description of the function promises the value found: \<^verbatim>\<open>$&\<close> stands for
  the matched placeholder, so the placeholder stays.
\<close>

theorem personalizeAnswer_counterexample:
  "\<not> sublist ''{ab}'' ''{{a}b}'' \<and>
   personalizeAnswer ''{{a}b}'' [(''a'', ''a''), (''ab'', ''y'')] = ''y'' \<and>
   personalizeAnswer ''Halo {name}'' [(''name'', ''$&'')] = ''Halo {name}''"
  by (simp add: personalizeAnswer_def for_in_def is_array_index_def is_digit_def js_replace_def
        sublist_code)

section \<open>The handler on a well-formed request\<close>

lemma chat_valid:
  assumes "userInput \<noteq> []" and "sid \<noteq> []" and "getOrCreate mem sid = (sess, mem1)"
  shows "chat e cfg mem \<lparr> req_q = Some userInput, req_sessionId = Some sid \<rparr> =
           (case pipeline e cfg mem1 sid sess userInput of
              Inl thrown \<Rightarrow> (JsonError 500 serverError, thrown)
            | Inr result \<Rightarrow> result)"
  using assms by (simp add: chat_def truthy_def)

lemma pipeline_accept:
  assumes "tokenizers e (tokenizerType cfg) = Some tokenize"
    and "findBestMatch e cfg sess (detectLanguage e cfg userInput) userInput = Some r"
    and "accepted cfg r"
  shows "pipeline e cfg mem sid sess userInput =
           localAnswer e mem sid sess userInput (detectLanguage e cfg userInput)
             (recognizeEntities (toLowerCase e) (entities cfg) (tokenize (toLowerCase e userInput))) r"
  using assms by (simp add: pipeline_def Let_def)

lemma pipeline_reject:
  assumes "tokenizers e (tokenizerType cfg) = Some tokenize"
    and "\<forall>r. findBestMatch e cfg sess (detectLanguage e cfg userInput) userInput = Some r
             \<longrightarrow> \<not> accepted cfg r"
  shows "pipeline e cfg mem sid sess userInput =
           fallbackChain e cfg mem sid sess userInput (detectLanguage e cfg userInput)"
  using assms by (simp add: pipeline_def Let_def split: option.splits)



text \<open>An item with an answer always has one chosen, since \<^verbatim>\<open>Math.random()\<close> is in \<open>[0, 1)\<close>.\<close>

lemma getRandomAnswer_total:
  assumes "as_list (answers it) \<noteq> []" and "0 \<le> rnd" and "rnd < 1"
  shows "\<exists>a. getRandomAnswer rnd it = Some a \<and> a \<in> set (as_list (answers it))"
proof (cases "answers it")
  case (One a)
  then show ?thesis by (simp add: getRandomAnswer_def)
next
  case (Many xs)
  with assms(1) have pos: "0 < length xs" by simp
  have lo: "0 \<le> \<lfloor>rnd * real (length xs)\<rfloor>"
    using assms(2) by simp
  have "rnd * real (length xs) < real (length xs)"
    using assms(3) pos by simp
  then have hi: "\<lfloor>rnd * real (length xs)\<rfloor> < int (length xs)"
    by (simp add: floor_less_iff)
  from lo hi have "nat \<lfloor>rnd * real (length xs)\<rfloor> < length xs"
    by linarith
  with Many lo hi show ?thesis
    by (simp add: getRandomAnswer_def Let_def)
qed

lemma localAnswer_Some:
  assumes "getRandomAnswer (random e) (item r) = Some a" and "sid \<notin> set inheritedKeys"
  shows "localAnswer e mem sid sess userInput language found r =
     Inr (JsonOk \<lparr> res_answer = personalizeAnswer a found,
                    res_intent = intent (item r),
                    res_score = Some (score r),
                    res_source = ''local_qa'',
                    res_context = (if truthy (nextContextId (item r))
                                   then nextContextId (item r) else None),
                    res_language = language,
                    res_entities = Some found \<rparr>,
          mem(sid \<mapsto> \<lparr> s_history = s_history sess @ [(userInput, personalizeAnswer a found)],
                        s_context = (if truthy (nextContextId (item r))
                                     then nextContextId (item r) else None) \<rparr>))"
  using assms by (simp add: localAnswer_def Let_def)

lemma localAnswer_None:
  "getRandomAnswer (random e) (item r) = None \<Longrightarrow>
   localAnswer e mem sid sess userInput language found r = Inl mem"
  by (simp add: localAnswer_def)

text \<open>Whatever the fallback chain answers does not carry the source of a local match.\<close>

lemma staticFallback_source:
  "staticFallback e cfg mem sid sess userInput language = Inr (JsonOk b, mem') \<Longrightarrow>
   res_source b = ''local_fallback''"
  by (auto simp: staticFallback_def split: option.splits if_splits)

lemma fallbackChain_source:
  "fallbackChain e cfg mem sid sess userInput language = Inr (JsonOk b, mem') \<Longrightarrow>
   res_source b = ''api_fallback'' \<or> res_source b = ''local_fallback''"
  by (auto simp: fallbackChain_def Let_def dest: staticFallback_source
           split: option.splits if_splits api_outcome.splits)

lemma fallbackChain_answer_source:
  assumes "fst (case fallbackChain e cfg mem sid sess userInput language of
                  Inl thrown \<Rightarrow> (JsonError 500 serverError, thrown)
                | Inr result \<Rightarrow> result) = JsonOk b"
  shows "res_source b = ''api_fallback'' \<or> res_source b = ''local_fallback''"
proof (cases "fallbackChain e cfg mem sid sess userInput language")
  case (Inl thrown)
  with assms show ?thesis by simp
next
  case (Inr result)
  with assms have "fallbackChain e cfg mem sid sess userInput language = Inr (JsonOk b, snd result)"
    by (cases result) simp
  then show ?thesis by (rule fallbackChain_source)
qed

lemma effectiveThreshold_spec:
  "threshold it \<noteq> Num 0 \<Longrightarrow> effectiveThreshold cfg it = spec_effectiveThreshold cfg it"
  by (cases "threshold it") (simp_all add: effectiveThreshold_def spec_effectiveThreshold_def js_or_def)

lemma js_lt_irrefl: "\<not> js_lt x (Num x)"
  by (simp add: js_lt_def)

lemma fallbackChain_no_api:
  assumes "\<forall>api u. apiFallback (cfg_settings cfg) = Some api \<and> url api = Some u \<and> u \<noteq> []
             \<longrightarrow> axios_get e u userInput = ApiThrows"
  shows "fallbackChain e cfg mem sid sess userInput language =
           staticFallback e cfg mem sid sess userInput language"
  using assms by (auto simp: fallbackChain_def split: option.splits)

lemma fallbackChain_api_data:
  assumes "apiFallback (cfg_settings cfg) = Some api" and "url api = Some u" and "u \<noteq> []"
    and "axios_get e u userInput = ApiData a" and "sid \<notin> set inheritedKeys"
  shows "fallbackChain e cfg mem sid sess userInput language =
     Inr (JsonOk \<lparr> res_answer = (case a of None \<Rightarrow> apiDefaultAnswer
                                   | Some t \<Rightarrow> if t = [] then apiDefaultAnswer else t),
                    res_intent = Some ''api_fallback'',
                    res_score = None,
                    res_source = ''api_fallback'',
                    res_context = None,
                    res_language = language,
                    res_entities = None \<rparr>,
          mem(sid \<mapsto> \<lparr> s_history = s_history sess @
                           [(userInput, case a of None \<Rightarrow> apiDefaultAnswer
                                        | Some t \<Rightarrow> if t = [] then apiDefaultAnswer else t)],
                        s_context = None \<rparr>))"
  using assms by (simp add: fallbackChain_def Let_def)

lemma fallbackChain_api_throws:
  assumes "apiFallback (cfg_settings cfg) = Some api" and "url api = Some u" and "u \<noteq> []"
    and "axios_get e u userInput = ApiThrows"
  shows "fallbackChain e cfg mem sid sess userInput language =
           staticFallback e cfg mem sid sess userInput language"
  using assms by (simp add: fallbackChain_def)

lemma staticFallback_found:
  assumes "find (\<lambda>i. intent i = Some ''fallback'' \<and> lang i = language) (qaItems cfg) = Some fallbackItem"
    and "getRandomAnswer (random e) fallbackItem = Some a" and "sid \<notin> set inheritedKeys"
  shows "staticFallback e cfg mem sid sess userInput language =
     Inr (JsonOk \<lparr> res_answer = a,
                    res_intent = Some ''fallback'',
                    res_score = None,
                    res_source = ''local_fallback'',
                    res_context = None,
                    res_language = language,
                    res_entities = None \<rparr>,
          mem(sid \<mapsto> \<lparr> s_history = s_history sess @ [(userInput, a)], s_context = None \<rparr>))"
  using assms by (simp add: staticFallback_def)

section \<open>A match in the active context\<close>




section \<open>Acceptance by threshold\<close>

text \<open>
  C2, amended. The request comes with a session id that is not a name every object
  inherits, and nothing has been assigned to the prototype of the objects. Let a best
  match be found whose item has no threshold of its own or one other than zero. The
  handler answers with the match (source \<open>local_qa\<close>) exactly when the score is strictly
  less than the effective threshold, the item's threshold if present and else the global
  default, and the item has an answer to choose. When the score is not strictly less, and
  so when it equals the effective threshold, the outcome is the one of the fallback chain.
\<close>

theorem threshold_acceptance_strict:
  assumes "userInput \<noteq> []" and "sid \<noteq> []"
    and "sid \<notin> set inheritedKeys" and "mem ''__proto__'' = None"
    and "getOrCreate mem sid = (sess, mem1)"
    and "tokenizers e (tokenizerType cfg) = Some tokenize"
    and "findBestMatch e cfg sess (detectLanguage e cfg userInput) userInput = Some r"
    and "threshold (item r) \<noteq> Num 0"
  shows "((\<exists>b. fst (chat e cfg mem \<lparr> req_q = Some userInput, req_sessionId = Some sid \<rparr>) = JsonOk b \<and>
              res_source b = ''local_qa'') \<longleftrightarrow>
          (js_lt (score r) (spec_effectiveThreshold cfg (item r)) \<and>
           getRandomAnswer (random e) (item r) \<noteq> None)) \<and>
         (\<not> js_lt (score r) (spec_effectiveThreshold cfg (item r)) \<longrightarrow>
            chat e cfg mem \<lparr> req_q = Some userInput, req_sessionId = Some sid \<rparr> =
              (case fallbackChain e cfg mem1 sid sess userInput (detectLanguage e cfg userInput) of
                 Inl thrown \<Rightarrow> (JsonError 500 serverError, thrown)
               | Inr result \<Rightarrow> result)) \<and>
         (spec_effectiveThreshold cfg (item r) = Num (score r) \<longrightarrow>
            chat e cfg mem \<lparr> req_q = Some userInput, req_sessionId = Some sid \<rparr> =
              (case fallbackChain e cfg mem1 sid sess userInput (detectLanguage e cfg userInput) of
                 Inl thrown \<Rightarrow> (JsonError 500 serverError, thrown)
               | Inr result \<Rightarrow> result))"
proof -
  let ?req = "\<lparr> req_q = Some userInput, req_sessionId = Some sid \<rparr>"
  let ?lang = "detectLanguage e cfg userInput"
  let ?found = "recognizeEntities (toLowerCase e) (entities cfg) (tokenize (toLowerCase e userInput))"
  let ?fb = "case fallbackChain e cfg mem1 sid sess userInput ?lang of
               Inl thrown \<Rightarrow> (JsonError 500 serverError, thrown)
             | Inr result \<Rightarrow> result"
  have acc: "accepted cfg r \<longleftrightarrow> js_lt (score r) (spec_effectiveThreshold cfg (item r))"
    by (simp add: accepted_def effectiveThreshold_spec [OF assms(8)])
  have rejected: "chat e cfg mem ?req = ?fb"
    if "\<not> js_lt (score r) (spec_effectiveThreshold cfg (item r))"
  proof -
    from that acc assms(7)
    have "\<forall>r'. findBestMatch e cfg sess ?lang userInput = Some r' \<longrightarrow> \<not> accepted cfg r'"
      by simp
    from pipeline_reject [OF assms(6) this] show ?thesis
      by (simp add: chat_valid [OF assms(1,2,5)])
  qed
  have no_local: "res_source b \<noteq> ''local_qa''" if "fst ?fb = JsonOk b" for b
    using fallbackChain_answer_source [OF that] by auto
  have taken: "chat e cfg mem ?req =
                 (case localAnswer e mem1 sid sess userInput ?lang ?found r of
                    Inl thrown \<Rightarrow> (JsonError 500 serverError, thrown)
                  | Inr result \<Rightarrow> result)"
    if "js_lt (score r) (spec_effectiveThreshold cfg (item r))"
  proof -
    from that acc have "accepted cfg r" by simp
    from pipeline_accept [OF assms(6,7) this] show ?thesis
      by (simp add: chat_valid [OF assms(1,2,5)])
  qed
  have iff: "(\<exists>b. fst (chat e cfg mem ?req) = JsonOk b \<and> res_source b = ''local_qa'') \<longleftrightarrow>
          (js_lt (score r) (spec_effectiveThreshold cfg (item r)) \<and>
           getRandomAnswer (random e) (item r) \<noteq> None)"
  proof (cases "js_lt (score r) (spec_effectiveThreshold cfg (item r))")
    case False
    with rejected no_local show ?thesis by auto
  next
    case True
    show ?thesis
    proof (cases "getRandomAnswer (random e) (item r)")
      case None
      then have "localAnswer e mem1 sid sess userInput ?lang ?found r = Inl mem1"
        by (rule localAnswer_None)
      with taken [OF True] None show ?thesis by simp
    next
      case (Some a)
      from localAnswer_Some [OF Some assms(3)] taken [OF True] True Some show ?thesis
        by simp
    qed
  qed
  have eq: "chat e cfg mem ?req = ?fb" if "spec_effectiveThreshold cfg (item r) = Num (score r)"
    using that rejected js_lt_irrefl by simp
  from iff rejected eq show ?thesis by blast
qed

theorem threshold_acceptance_strict_witness:
  "threshold ex_item \<noteq> Num 0 \<and>
   findBestMatch (ex_env 0.4 ApiThrows) (ex_config [ex_fallback_item] None)
       \<lparr> s_history = [(''halo'', ''Halo!'')], s_context = Some ''order'' \<rparr> ''id'' ''mau pesan''
     = Some \<lparr> item = ex_item, score = 0.4 \<rparr> \<and>
   spec_effectiveThreshold (ex_config [ex_fallback_item] None) ex_item = Num 0.4 \<and>
   chat (ex_env 0.4 ApiThrows) (ex_config [ex_fallback_item] None) ex_memory
        \<lparr> req_q = Some ''mau pesan'', req_sessionId = Some ''s1'' \<rparr>
     = (JsonOk \<lparr> res_answer = ''Maaf, saya belum mengerti.'', res_intent = Some ''fallback'',
                 res_score = None, res_source = ''local_fallback'', res_context = None,
                 res_language = ''id'', res_entities = None \<rparr>,
        ex_memory(''s1'' \<mapsto>
          \<lparr> s_history = [(''halo'', ''Halo!''), (''mau pesan'', ''Maaf, saya belum mengerti.'')],
            s_context = None \<rparr>))"
proof -
  let ?e = "ex_env 0.4 ApiThrows" and ?cfg = "ex_config [ex_fallback_item] None"
  let ?sess = "\<lparr> s_history = [(''halo'', ''Halo!'')], s_context = Some ''order'' \<rparr>"
  let ?r = "\<lparr> item = ex_item, score = 0.4 \<rparr>"
  have h1: "''mau pesan'' \<noteq> []" and h2: "''s1'' \<noteq> []"
    by simp_all
  have i1: "''s1'' \<notin> set inheritedKeys"
    by (simp add: inheritedKeys_def)
  have i2: "ex_memory ''__proto__'' = None"
    by (simp add: ex_memory_def)
  have h3: "getOrCreate ex_memory ''s1'' = (?sess, ex_memory)"
    by (simp add: getOrCreate_def lookupSession_def inheritedKeys_def ex_memory_def)
  have h4: "tokenizers ?e (tokenizerType ?cfg) = Some ex_tokenize"
    by (simp add: ex_env_def ex_config_def tokenizerType_def)
  have lng: "detectLanguage ?e ?cfg ''mau pesan'' = ''id''"
    by (simp add: detectLanguage_def ex_config_def)
  have best: "findBestMatch ?e ?cfg ?sess ''id'' ''mau pesan'' = Some ?r"
    by (simp add: search_defs truthy_def example_defs)
  then have h5: "findBestMatch ?e ?cfg ?sess (detectLanguage ?e ?cfg ''mau pesan'') ''mau pesan'' = Some ?r"
    by (simp only: lng)
  have h6: "threshold (item ?r) \<noteq> Num 0"
    by (simp add: ex_item_def)
  have eff: "spec_effectiveThreshold ?cfg ex_item = Num 0.4"
    by (simp add: spec_effectiveThreshold_def ex_item_def ex_config_def)
  then have "spec_effectiveThreshold ?cfg (item ?r) = Num (score ?r)"
    by simp
  with threshold_acceptance_strict [OF h1 h2 i1 i2 h3 h4 h5 h6]
  have "chat ?e ?cfg ex_memory \<lparr> req_q = Some ''mau pesan'', req_sessionId = Some ''s1'' \<rparr> =
          (case fallbackChain ?e ?cfg ex_memory ''s1'' ?sess ''mau pesan''
                  (detectLanguage ?e ?cfg ''mau pesan'') of
             Inl thrown \<Rightarrow> (JsonError 500 serverError, thrown)
           | Inr result \<Rightarrow> result)"
    by blast
  moreover have "fallbackChain ?e ?cfg ex_memory ''s1'' ?sess ''mau pesan'' ''id''
     = Inr (JsonOk \<lparr> res_answer = ''Maaf, saya belum mengerti.'', res_intent = Some ''fallback'',
                 res_score = None, res_source = ''local_fallback'', res_context = None,
                 res_language = ''id'', res_entities = None \<rparr>,
        ex_memory(''s1'' \<mapsto>
          \<lparr> s_history = [(''halo'', ''Halo!''), (''mau pesan'', ''Maaf, saya belum mengerti.'')],
            s_context = None \<rparr>))"
    by (simp add: fallbackChain_def staticFallback_def getRandomAnswer_def inheritedKeys_def
          ex_config_def ex_fallback_item_def ex_env_def)
  ultimately have "chat ?e ?cfg ex_memory \<lparr> req_q = Some ''mau pesan'', req_sessionId = Some ''s1'' \<rparr>
     = (JsonOk \<lparr> res_answer = ''Maaf, saya belum mengerti.'', res_intent = Some ''fallback'',
                 res_score = None, res_source = ''local_fallback'', res_context = None,
                 res_language = ''id'', res_entities = None \<rparr>,
        ex_memory(''s1'' \<mapsto>
          \<lparr> s_history = [(''halo'', ''Halo!''), (''mau pesan'', ''Maaf, saya belum mengerti.'')],
            s_context = None \<rparr>))"
    by (simp only: lng sum.case)
  with h6 best eff show ?thesis by simp
qed

text \<open>
  An item whose own threshold is 0: the handler takes 0 for no threshold and tests the
  score 0.1 against the global 0.4, so the match is accepted although its score is not
  below the override.
\<close>

theorem zero_override_counterexample:
  "threshold (ex_item \<lparr> threshold := Num 0 \<rparr>) = Num 0 \<and>
   findBestMatch (ex_env 0.1 ApiThrows) (ex_config [ex_item \<lparr> threshold := Num 0 \<rparr>] None)
       newSession ''id'' ''mau pesan''
     = Some \<lparr> item = ex_item \<lparr> threshold := Num 0 \<rparr>, score = 0.1 \<rparr> \<and>
   spec_effectiveThreshold (ex_config [ex_item \<lparr> threshold := Num 0 \<rparr>] None)
       (ex_item \<lparr> threshold := Num 0 \<rparr>) = Num 0 \<and>
   \<not> js_lt 0.1 (Num 0) \<and>
   chat (ex_env 0.1 ApiThrows) (ex_config [ex_item \<lparr> threshold := Num 0 \<rparr>] None) Map.empty
        \<lparr> req_q = Some ''mau pesan'', req_sessionId = Some ''s2'' \<rparr>
     = (JsonOk \<lparr> res_answer = ''Baik {name}, pesanan dicatat.'', res_intent = Some ''order'',
                 res_score = Some 0.1, res_source = ''local_qa'',
                 res_context = Some ''payment'', res_language = ''id'',
                 res_entities = Some [] \<rparr>,
        [''s2'' \<mapsto> \<lparr> s_history = [(''mau pesan'', ''Baik {name}, pesanan dicatat.'')],
                       s_context = Some ''payment'' \<rparr>])"
  by (simp add: handler_defs search_defs example_defs text_defs spec_effectiveThreshold_def)

section \<open>The end of the fallback chain\<close>

text \<open>
  C3 does not hold of the handler. When no local match is accepted, no endpoint is
  configured or its call throws, and the standalone items have no fallback item of the
  detected language, the handler creates the session if need be and returns without
  sending any response.
\<close>

theorem chat_triple_failure_no_response:
  assumes "userInput \<noteq> []" and "sid \<noteq> []"
    and "getOrCreate mem sid = (sess, mem1)"
    and "tokenizers e (tokenizerType cfg) = Some tokenize"
    and "\<forall>r. findBestMatch e cfg sess (detectLanguage e cfg userInput) userInput = Some r
             \<longrightarrow> \<not> accepted cfg r"
    and "\<forall>api u. apiFallback (cfg_settings cfg) = Some api \<and> url api = Some u \<and> u \<noteq> []
             \<longrightarrow> axios_get e u userInput = ApiThrows"
    and "find (\<lambda>i. intent i = Some ''fallback'' \<and> lang i = detectLanguage e cfg userInput)
           (qaItems cfg) = None"
  shows "chat e cfg mem \<lparr> req_q = Some userInput, req_sessionId = Some sid \<rparr> = (NoResponse, mem1)"
  by (simp add: chat_valid [OF assms(1-3)] pipeline_reject [OF assms(4,5)]
        fallbackChain_no_api [OF assms(6)] staticFallback_def assms(7))

theorem chat_triple_failure_no_response_witness:
  "axios_get (ex_env 0.45 ApiThrows) ''http://api.example/ask'' ''apa kabar'' = ApiThrows \<and>
   find (\<lambda>i. intent i = Some ''fallback'' \<and> lang i = ''id'') (qaItems (ex_config [] ex_api)) = None \<and>
   chat (ex_env 0.45 ApiThrows) (ex_config [] ex_api) Map.empty
        \<lparr> req_q = Some ''apa kabar'', req_sessionId = Some ''s9'' \<rparr>
     = (NoResponse, [''s9'' \<mapsto> \<lparr> s_history = [], s_context = None \<rparr>])"
proof -
  let ?e = "ex_env 0.45 ApiThrows" and ?cfg = "ex_config [] ex_api"
  let ?mem1 = "[''s9'' \<mapsto> \<lparr> s_history = [], s_context = None \<rparr>]"
  have h1: "''apa kabar'' \<noteq> []" and h2: "''s9'' \<noteq> []"
    by simp_all
  have h3: "getOrCreate Map.empty ''s9'' = (newSession, ?mem1)"
    by (simp add: getOrCreate_def lookupSession_def inheritedKeys_def newSession_def)
  have h4: "tokenizers ?e (tokenizerType ?cfg) = Some ex_tokenize"
    by (simp add: ex_env_def ex_config_def tokenizerType_def)
  have lng: "detectLanguage ?e ?cfg ''apa kabar'' = ''id''"
    by (simp add: detectLanguage_def ex_config_def)
  have "findBestMatch ?e ?cfg newSession ''id'' ''apa kabar'' = None"
    by (simp add: search_defs truthy_def js_or_def example_defs newSession_def)
  then have h5: "\<forall>r. findBestMatch ?e ?cfg newSession (detectLanguage ?e ?cfg ''apa kabar'') ''apa kabar''
                   = Some r \<longrightarrow> \<not> accepted ?cfg r"
    by (simp only: lng) simp
  have h9: "axios_get ?e u ''apa kabar'' = ApiThrows" for u
    by (simp add: ex_env_def)
  then have h6: "\<forall>api u. apiFallback (cfg_settings ?cfg) = Some api \<and> url api = Some u \<and> u \<noteq> []
             \<longrightarrow> axios_get ?e u ''apa kabar'' = ApiThrows"
    by simp
  have nf: "find (\<lambda>i. intent i = Some ''fallback'' \<and> lang i = ''id'') (qaItems ?cfg) = None"
    by (simp add: ex_config_def)
  then have h7: "find (\<lambda>i. intent i = Some ''fallback'' \<and> lang i = detectLanguage ?e ?cfg ''apa kabar'')
           (qaItems ?cfg) = None"
    by (simp only: lng)
  from chat_triple_failure_no_response [OF h1 h2 h3 h4 h5 h6 h7] h9 nf show ?thesis
    by simp
qed

section \<open>The external fallback\<close>

text \<open>
  C4, amended. The request comes with a session id that is not a name every object
  inherits, and nothing has been assigned to the prototype of the objects. When no local
  match is accepted, an endpoint is configured and the call succeeds, the answer is the
  \<open>answer\<close> field of the reply, or the fixed default text when the field is absent or
  empty; the session's context is cleared and one entry is added to its history; the
  source is \<open>api_fallback\<close>, the intent field is the literal \<open>api_fallback\<close>, and there is
  neither a score nor an entities field.
\<close>

theorem api_fallback_success:
  assumes "userInput \<noteq> []" and "sid \<noteq> []"
    and "sid \<notin> set inheritedKeys" and "mem ''__proto__'' = None"
    and "getOrCreate mem sid = (sess, mem1)"
    and "tokenizers e (tokenizerType cfg) = Some tokenize"
    and "\<forall>r. findBestMatch e cfg sess (detectLanguage e cfg userInput) userInput = Some r
             \<longrightarrow> \<not> accepted cfg r"
    and "apiFallback (cfg_settings cfg) = Some api" and "url api = Some u" and "u \<noteq> []"
    and "axios_get e u userInput = ApiData a"
  shows "chat e cfg mem \<lparr> req_q = Some userInput, req_sessionId = Some sid \<rparr> =
     (JsonOk \<lparr> res_answer = (case a of None \<Rightarrow> apiDefaultAnswer
                              | Some t \<Rightarrow> if t = [] then apiDefaultAnswer else t),
               res_intent = Some ''api_fallback'',
               res_score = None,
               res_source = ''api_fallback'',
               res_context = None,
               res_language = detectLanguage e cfg userInput,
               res_entities = None \<rparr>,
      mem1(sid \<mapsto> \<lparr> s_history = s_history sess @
                        [(userInput, case a of None \<Rightarrow> apiDefaultAnswer
                                     | Some t \<Rightarrow> if t = [] then apiDefaultAnswer else t)],
                     s_context = None \<rparr>))"
  by (simp add: chat_valid [OF assms(1,2,5)] pipeline_reject [OF assms(6,7)]
        fallbackChain_api_data [OF assms(8-11) assms(3)])

theorem api_fallback_success_witness:
  "axios_get (ex_env 0.45 (ApiData (Some ''Dari API''))) ''http://api.example/ask'' ''apa kabar''
     = ApiData (Some ''Dari API'') \<and>
   chat (ex_env 0.45 (ApiData (Some ''Dari API''))) (ex_config [ex_fallback_item] ex_api) ex_memory
        \<lparr> req_q = Some ''apa kabar'', req_sessionId = Some ''s1'' \<rparr>
     = (JsonOk \<lparr> res_answer = ''Dari API'', res_intent = Some ''api_fallback'',
                 res_score = None, res_source = ''api_fallback'', res_context = None,
                 res_language = ''id'', res_entities = None \<rparr>,
        ex_memory(''s1'' \<mapsto>
          \<lparr> s_history = [(''halo'', ''Halo!''), (''apa kabar'', ''Dari API'')],
            s_context = None \<rparr>))"
proof -
  let ?e = "ex_env 0.45 (ApiData (Some ''Dari API''))" and ?cfg = "ex_config [ex_fallback_item] ex_api"
  let ?sess = "\<lparr> s_history = [(''halo'', ''Halo!'')], s_context = Some ''order'' \<rparr>"
  have h1: "''apa kabar'' \<noteq> []" and h2: "''s1'' \<noteq> []" and h8: "''http://api.example/ask'' \<noteq> []"
    by simp_all
  have i1: "''s1'' \<notin> set inheritedKeys"
    by (simp add: inheritedKeys_def)
  have i2: "ex_memory ''__proto__'' = None"
    by (simp add: ex_memory_def)
  have h3: "getOrCreate ex_memory ''s1'' = (?sess, ex_memory)"
    by (simp add: getOrCreate_def lookupSession_def inheritedKeys_def ex_memory_def)
  have h4: "tokenizers ?e (tokenizerType ?cfg) = Some ex_tokenize"
    by (simp add: ex_env_def ex_config_def tokenizerType_def)
  have lng: "detectLanguage ?e ?cfg ''apa kabar'' = ''id''"
    by (simp add: detectLanguage_def ex_config_def)
  have "findBestMatch ?e ?cfg ?sess ''id'' ''apa kabar'' = Some \<lparr> item = ex_item, score = 0.45 \<rparr>"
    by (simp add: search_defs truthy_def example_defs)
  moreover have "\<not> accepted ?cfg \<lparr> item = ex_item, score = 0.45 \<rparr>"
    by (simp add: accepted_def effectiveThreshold_def js_or_def js_lt_def ex_item_def ex_config_def)
  ultimately
  have h5: "\<forall>r. findBestMatch ?e ?cfg ?sess (detectLanguage ?e ?cfg ''apa kabar'') ''apa kabar'' = Some r
               \<longrightarrow> \<not> accepted ?cfg r"
    by (simp only: lng) simp
  have h6: "apiFallback (cfg_settings ?cfg) = Some \<lparr> url = Some ''http://api.example/ask'' \<rparr>"
    by (simp add: ex_config_def ex_api_def)
  have h7: "url \<lparr> url = Some ''http://api.example/ask'' \<rparr> = Some ''http://api.example/ask''"
    by simp
  have h9: "axios_get ?e ''http://api.example/ask'' ''apa kabar'' = ApiData (Some ''Dari API'')"
    by (simp add: ex_env_def)
  from api_fallback_success [OF h1 h2 i1 i2 h3 h4 h5 h6 h7 h8 h9] h9 show ?thesis
    by (simp only: lng) simp
qed

text \<open>
  Two runs against the claim as it stands. The answer of a successful external call does
  carry an intent field. And when the reply has an \<open>answer\<close> field that is the empty
  string, the response carries the default text, not the field.
\<close>

theorem api_fallback_counterexample:
  "(case fst (chat (ex_env 0.45 (ApiData (Some ''Dari API''))) (ex_config [ex_fallback_item] ex_api)
               ex_memory \<lparr> req_q = Some ''apa kabar'', req_sessionId = Some ''s1'' \<rparr>) of
      JsonOk b \<Rightarrow> res_source b = ''api_fallback'' \<and> res_intent b = Some ''api_fallback''
                   \<and> res_intent b \<noteq> None
    | JsonError st msg \<Rightarrow> False
    | NoResponse \<Rightarrow> False) \<and>
   axios_get (ex_env 0.45 (ApiData (Some []))) ''http://api.example/ask'' ''apa kabar''
     = ApiData (Some []) \<and>
   (case fst (chat (ex_env 0.45 (ApiData (Some []))) (ex_config [ex_fallback_item] ex_api)
               ex_memory \<lparr> req_q = Some ''apa kabar'', req_sessionId = Some ''s1'' \<rparr>) of
      JsonOk b \<Rightarrow> res_source b = ''api_fallback'' \<and>
                   res_answer b = ''Maaf, API eksternal juga bingung.'' \<and> res_answer b \<noteq> []
    | JsonError st msg \<Rightarrow> False
    | NoResponse \<Rightarrow> False)"
  by (simp add: handler_defs search_defs example_defs text_defs ex_api_def apiDefaultAnswer_def)

text \<open>
  C6, amended. The request comes with a session id that is not a name every object
  inherits, and nothing has been assigned to the prototype of the objects. When no local
  match is accepted and the call to the configured endpoint fails by throwing inside the
  inner \<^verbatim>\<open>try\<close> (a timeout, a transport error, an error status, or a reply without data,
  on which the read of the answer throws), nothing of the failure reaches the caller: the
  response is the one of the static fallback tier, the same as if no endpoint were
  configured; with a fallback item of the detected language that has an answer to choose,
  the source is \<open>local_fallback\<close>.
\<close>

theorem api_failure_recovered:
  assumes "userInput \<noteq> []" and "sid \<noteq> []"
    and "sid \<notin> set inheritedKeys" and "mem ''__proto__'' = None"
    and "getOrCreate mem sid = (sess, mem1)"
    and "tokenizers e (tokenizerType cfg) = Some tokenize"
    and "\<forall>r. findBestMatch e cfg sess (detectLanguage e cfg userInput) userInput = Some r
             \<longrightarrow> \<not> accepted cfg r"
    and "apiFallback (cfg_settings cfg) = Some api" and "url api = Some u" and "u \<noteq> []"
    and "axios_get e u userInput = ApiThrows"
  shows "chat e cfg mem \<lparr> req_q = Some userInput, req_sessionId = Some sid \<rparr> =
           (case staticFallback e cfg mem1 sid sess userInput (detectLanguage e cfg userInput) of
              Inl thrown \<Rightarrow> (JsonError 500 serverError, thrown)
            | Inr result \<Rightarrow> result) \<and>
         chat e cfg mem \<lparr> req_q = Some userInput, req_sessionId = Some sid \<rparr> =
           chat e (cfg \<lparr> cfg_settings := (cfg_settings cfg) \<lparr> apiFallback := None \<rparr> \<rparr>) mem
             \<lparr> req_q = Some userInput, req_sessionId = Some sid \<rparr> \<and>
         (\<forall>fallbackItem a.
            find (\<lambda>i. intent i = Some ''fallback'' \<and> lang i = detectLanguage e cfg userInput)
              (qaItems cfg) = Some fallbackItem \<and>
            getRandomAnswer (random e) fallbackItem = Some a \<longrightarrow>
            chat e cfg mem \<lparr> req_q = Some userInput, req_sessionId = Some sid \<rparr> =
              (JsonOk \<lparr> res_answer = a, res_intent = Some ''fallback'', res_score = None,
                        res_source = ''local_fallback'', res_context = None,
                        res_language = detectLanguage e cfg userInput, res_entities = None \<rparr>,
               mem1(sid \<mapsto> \<lparr> s_history = s_history sess @ [(userInput, a)],
                              s_context = None \<rparr>)))"
proof (intro conjI allI impI)
  let ?req = "\<lparr> req_q = Some userInput, req_sessionId = Some sid \<rparr>"
  let ?lang = "detectLanguage e cfg userInput"
  show static: "chat e cfg mem ?req =
           (case staticFallback e cfg mem1 sid sess userInput ?lang of
              Inl thrown \<Rightarrow> (JsonError 500 serverError, thrown)
            | Inr result \<Rightarrow> result)"
    by (simp add: chat_valid [OF assms(1,2,5)] pipeline_reject [OF assms(6,7)]
          fallbackChain_api_throws [OF assms(8-11)])
  {
    fix fallbackItem a
    assume "find (\<lambda>i. intent i = Some ''fallback'' \<and> lang i = ?lang) (qaItems cfg) = Some fallbackItem \<and>
            getRandomAnswer (random e) fallbackItem = Some a"
    then have "staticFallback e cfg mem1 sid sess userInput ?lang =
       Inr (JsonOk \<lparr> res_answer = a, res_intent = Some ''fallback'', res_score = None,
                      res_source = ''local_fallback'', res_context = None,
                      res_language = ?lang, res_entities = None \<rparr>,
            mem1(sid \<mapsto> \<lparr> s_history = s_history sess @ [(userInput, a)], s_context = None \<rparr>))"
      using assms(3) by (simp add: staticFallback_found)
    with static show "chat e cfg mem ?req =
              (JsonOk \<lparr> res_answer = a, res_intent = Some ''fallback'', res_score = None,
                        res_source = ''local_fallback'', res_context = None,
                        res_language = ?lang, res_entities = None \<rparr>,
               mem1(sid \<mapsto> \<lparr> s_history = s_history sess @ [(userInput, a)],
                              s_context = None \<rparr>))"
      by simp
  }
  let ?cfg' = "cfg \<lparr> cfg_settings := (cfg_settings cfg) \<lparr> apiFallback := None \<rparr> \<rparr>"
  have "contextualSearch e ?cfg' sess userInput = contextualSearch e cfg sess userInput"
    by (simp add: contextualSearch_def)
  moreover have "generalSearch e ?cfg' l userInput = generalSearch e cfg l userInput" for l
    by (simp add: generalSearch_def detectIntent_def intentsFuse_def qaFuse_def allQaItems_def
          indexThreshold_def)
  ultimately
  have same_search: "findBestMatch e ?cfg' sess l userInput = findBestMatch e cfg sess l userInput" for l
    by (simp add: findBestMatch_def split: option.splits)
  have same_lang: "detectLanguage e ?cfg' userInput = ?lang"
    by (simp add: detectLanguage_def)
  have same_acc: "accepted ?cfg' r = accepted cfg r" for r
    by (simp add: accepted_def effectiveThreshold_def)
  have tok': "tokenizers e (tokenizerType ?cfg') = Some tokenize"
    using assms(6) by (simp add: tokenizerType_def)
  have rej': "\<forall>r. findBestMatch e ?cfg' sess (detectLanguage e ?cfg' userInput) userInput = Some r
               \<longrightarrow> \<not> accepted ?cfg' r"
    using assms(7) by (simp only: same_search same_lang same_acc)
  have "chat e ?cfg' mem ?req =
           (case staticFallback e ?cfg' mem1 sid sess userInput ?lang of
              Inl thrown \<Rightarrow> (JsonError 500 serverError, thrown)
            | Inr result \<Rightarrow> result)"
    by (simp add: chat_valid [OF assms(1,2,5)] pipeline_reject [OF tok' rej'] same_lang)
       (simp add: fallbackChain_def)
  moreover have "staticFallback e ?cfg' mem1 sid sess userInput ?lang =
                 staticFallback e cfg mem1 sid sess userInput ?lang"
    by (simp add: staticFallback_def)
  ultimately show "chat e cfg mem ?req = chat e ?cfg' mem ?req"
    using static by simp
qed

theorem api_failure_recovered_witness:
  "axios_get (ex_env 0.45 ApiThrows) ''http://api.example/ask'' ''apa kabar'' = ApiThrows \<and>
   find (\<lambda>i. intent i = Some ''fallback'' \<and> lang i = ''id'')
     (qaItems (ex_config [ex_fallback_item] ex_api)) = Some ex_fallback_item \<and>
   chat (ex_env 0.45 ApiThrows) (ex_config [ex_fallback_item] ex_api) ex_memory
        \<lparr> req_q = Some ''apa kabar'', req_sessionId = Some ''s1'' \<rparr>
     = (JsonOk \<lparr> res_answer = ''Maaf, saya belum mengerti.'', res_intent = Some ''fallback'',
                 res_score = None, res_source = ''local_fallback'', res_context = None,
                 res_language = ''id'', res_entities = None \<rparr>,
        ex_memory(''s1'' \<mapsto>
          \<lparr> s_history = [(''halo'', ''Halo!''), (''apa kabar'', ''Maaf, saya belum mengerti.'')],
            s_context = None \<rparr>))"
proof -
  let ?e = "ex_env 0.45 ApiThrows" and ?cfg = "ex_config [ex_fallback_item] ex_api"
  let ?sess = "\<lparr> s_history = [(''halo'', ''Halo!'')], s_context = Some ''order'' \<rparr>"
  have h1: "''apa kabar'' \<noteq> []" and h2: "''s1'' \<noteq> []" and h8: "''http://api.example/ask'' \<noteq> []"
    by simp_all
  have i1: "''s1'' \<notin> set inheritedKeys"
    by (simp add: inheritedKeys_def)
  have i2: "ex_memory ''__proto__'' = None"
    by (simp add: ex_memory_def)
  have h3: "getOrCreate ex_memory ''s1'' = (?sess, ex_memory)"
    by (simp add: getOrCreate_def lookupSession_def inheritedKeys_def ex_memory_def)
  have h4: "tokenizers ?e (tokenizerType ?cfg) = Some ex_tokenize"
    by (simp add: ex_env_def ex_config_def tokenizerType_def)
  have lng: "detectLanguage ?e ?cfg ''apa kabar'' = ''id''"
    by (simp add: detectLanguage_def ex_config_def)
  have "findBestMatch ?e ?cfg ?sess ''id'' ''apa kabar'' = Some \<lparr> item = ex_item, score = 0.45 \<rparr>"
    by (simp add: search_defs truthy_def example_defs)
  moreover have "\<not> accepted ?cfg \<lparr> item = ex_item, score = 0.45 \<rparr>"
    by (simp add: accepted_def effectiveThreshold_def js_or_def js_lt_def ex_item_def ex_config_def)
  ultimately
  have h5: "\<forall>r. findBestMatch ?e ?cfg ?sess (detectLanguage ?e ?cfg ''apa kabar'') ''apa kabar'' = Some r
               \<longrightarrow> \<not> accepted ?cfg r"
    by (simp only: lng) simp
  have h6: "apiFallback (cfg_settings ?cfg) = Some \<lparr> url = Some ''http://api.example/ask'' \<rparr>"
    by (simp add: ex_config_def ex_api_def)
  have h7: "url \<lparr> url = Some ''http://api.example/ask'' \<rparr> = Some ''http://api.example/ask''"
    by simp
  have h9: "axios_get ?e ''http://api.example/ask'' ''apa kabar'' = ApiThrows"
    by (simp add: ex_env_def)
  have fi: "find (\<lambda>i. intent i = Some ''fallback'' \<and> lang i = ''id'') (qaItems ?cfg)
              = Some ex_fallback_item"
    by (simp add: ex_config_def ex_fallback_item_def)
  have ans: "getRandomAnswer (random ?e) ex_fallback_item = Some ''Maaf, saya belum mengerti.''"
    by (simp add: getRandomAnswer_def ex_fallback_item_def)
  have fi': "find (\<lambda>i. intent i = Some ''fallback'' \<and> lang i = detectLanguage ?e ?cfg ''apa kabar'')
               (qaItems ?cfg) = Some ex_fallback_item \<and>
             getRandomAnswer (random ?e) ex_fallback_item = Some ''Maaf, saya belum mengerti.''"
    using fi ans by (simp only: lng simp_thms)
  from api_failure_recovered [OF h1 h2 i1 i2 h3 h4 h5 h6 h7 h8 h9, THEN conjunct2, THEN conjunct2,
         rule_format, OF fi']
  have "chat ?e ?cfg ex_memory \<lparr> req_q = Some ''apa kabar'', req_sessionId = Some ''s1'' \<rparr>
     = (JsonOk \<lparr> res_answer = ''Maaf, saya belum mengerti.'', res_intent = Some ''fallback'',
                 res_score = None, res_source = ''local_fallback'', res_context = None,
                 res_language = ''id'', res_entities = None \<rparr>,
        ex_memory(''s1'' \<mapsto>
          \<lparr> s_history = s_history ?sess @ [(''apa kabar'', ''Maaf, saya belum mengerti.'')],
            s_context = None \<rparr>))"
    by (simp only: lng)
  with h9 fi show ?thesis by simp
qed

text \<open>
  A run against the claim as it stands: a reply of another shape, which can be read but
  has no \<open>answer\<close> field, does not throw. The default text goes out with the source
  \<open>api_fallback\<close>, and the fallback item, which is present, is not used.
\<close>

theorem api_reply_without_answer_counterexample:
  "axios_get (ex_env 0.45 (ApiData None)) ''http://api.example/ask'' ''apa kabar'' = ApiData None \<and>
   find (\<lambda>i. intent i = Some ''fallback'' \<and> lang i = ''id'')
     (qaItems (ex_config [ex_fallback_item] ex_api)) = Some ex_fallback_item \<and>
   chat (ex_env 0.45 (ApiData None)) (ex_config [ex_fallback_item] ex_api) ex_memory
        \<lparr> req_q = Some ''apa kabar'', req_sessionId = Some ''s1'' \<rparr>
     = (JsonOk \<lparr> res_answer = ''Maaf, API eksternal juga bingung.'',
                 res_intent = Some ''api_fallback'', res_score = None,
                 res_source = ''api_fallback'', res_context = None,
                 res_language = ''id'', res_entities = None \<rparr>,
        ex_memory(''s1'' \<mapsto>
          \<lparr> s_history = [(''halo'', ''Halo!''), (''apa kabar'', ''Maaf, API eksternal juga bingung.'')],
            s_context = None \<rparr>))"
  by (simp add: handler_defs search_defs example_defs text_defs ex_api_def apiDefaultAnswer_def)

section \<open>The fields of an accepted match\<close>

lemma localAnswer_inherited:
  assumes "getRandomAnswer (random e) (item r) = Some a" and "sid \<in> set inheritedKeys"
  shows "localAnswer e mem sid sess userInput language found r =
     Inl (mem(sid \<mapsto> \<lparr> s_history = [],
                        s_context = (if truthy (nextContextId (item r))
                                     then nextContextId (item r) else None) \<rparr>))"
  using assms by (simp add: localAnswer_def Let_def)

text \<open>
  C10 holds of the handler under the session ids for which a session is stored, and not
  under the others. Nothing has been assigned to the prototype of the objects and the
  session id is not \<open>__proto__\<close>. An accepted match with an answer to choose, found through
  the active context or through the general search, is answered with the intent of its
  item, its score as the search gave it, and the source \<open>local_qa\<close>, when the session id
  is not a name every object inherits. When it is such a name, \<open>constructor\<close> for one, the
  lookup finds the inherited object and no session is created; the next context is
  assigned to that object, the push to its missing history throws, and the accepted match
  is answered with the status 500 and none of the fields.
\<close>

theorem accepted_match_fields:
  assumes "userInput \<noteq> []" and "sid \<noteq> []"
    and "sid \<noteq> ''__proto__''" and "mem ''__proto__'' = None"
    and "getOrCreate mem sid = (sess, mem1)"
    and "tokenizers e (tokenizerType cfg) = Some tokenize"
    and "contextualSearch e cfg sess userInput = Some r \<or>
         (contextualSearch e cfg sess userInput = None \<and>
          generalSearch e cfg (detectLanguage e cfg userInput) userInput = Some r)"
    and "accepted cfg r"
    and "getRandomAnswer (random e) (item r) = Some a"
  shows "(sid \<notin> set inheritedKeys \<longrightarrow>
            (\<exists>b. fst (chat e cfg mem \<lparr> req_q = Some userInput, req_sessionId = Some sid \<rparr>) = JsonOk b \<and>
                 res_intent b = intent (item r) \<and>
                 res_score b = Some (score r) \<and>
                 res_source b = ''local_qa'')) \<and>
         (sid \<in> set inheritedKeys \<longrightarrow>
            chat e cfg mem \<lparr> req_q = Some userInput, req_sessionId = Some sid \<rparr> =
              (JsonError 500 serverError,
               mem1(sid \<mapsto> \<lparr> s_history = [],
                              s_context = (if truthy (nextContextId (item r))
                                           then nextContextId (item r) else None) \<rparr>)))"
proof -
  from assms(7)
  have best: "findBestMatch e cfg sess (detectLanguage e cfg userInput) userInput = Some r"
    by (auto simp: findBestMatch_def)
  note run = chat_valid [OF assms(1,2,5)] pipeline_accept [OF assms(6) best assms(8)]
  have "\<exists>b. fst (chat e cfg mem \<lparr> req_q = Some userInput, req_sessionId = Some sid \<rparr>) = JsonOk b \<and>
             res_intent b = intent (item r) \<and> res_score b = Some (score r) \<and>
             res_source b = ''local_qa''"
    if "sid \<notin> set inheritedKeys"
    by (simp add: run localAnswer_Some [OF assms(9) that])
  moreover have "chat e cfg mem \<lparr> req_q = Some userInput, req_sessionId = Some sid \<rparr> =
              (JsonError 500 serverError,
               mem1(sid \<mapsto> \<lparr> s_history = [],
                              s_context = (if truthy (nextContextId (item r))
                                           then nextContextId (item r) else None) \<rparr>))"
    if "sid \<in> set inheritedKeys"
    by (simp add: run localAnswer_inherited [OF assms(9) that])
  ultimately show ?thesis
    by blast
qed

text \<open>
  Two requests with the session id \<open>constructor\<close>, on a knowledge base whose standalone
  item leads to the context \<open>order\<close>. The first is matched by the general search and
  accepted: it is answered with the status 500, and the context \<open>order\<close> stays assigned to
  the inherited object. The second is then matched through that active context and
  accepted, and is answered with the status 500 as well. The same request under the
  session id \<open>s1\<close> is answered with the three fields.
\<close>

theorem accepted_match_fields_witness:
  "chat (ex_env 0.3 ApiThrows) (ex_config [ex_item \<lparr> nextContextId := Some ''order'' \<rparr>] None)
        Map.empty \<lparr> req_q = Some ''mau pesan'', req_sessionId = Some ''constructor'' \<rparr>
     = (JsonError 500 serverError,
        [''constructor'' \<mapsto> \<lparr> s_history = [], s_context = Some ''order'' \<rparr>]) \<and>
   contextualSearch (ex_env 0.3 ApiThrows) (ex_config [ex_item \<lparr> nextContextId := Some ''order'' \<rparr>] None)
       \<lparr> s_history = [], s_context = Some ''order'' \<rparr> ''mau pesan''
     = Some \<lparr> item = ex_item, score = 0.3 \<rparr> \<and>
   accepted (ex_config [ex_item \<lparr> nextContextId := Some ''order'' \<rparr>] None)
       \<lparr> item = ex_item, score = 0.3 \<rparr> \<and>
   chat (ex_env 0.3 ApiThrows) (ex_config [ex_item \<lparr> nextContextId := Some ''order'' \<rparr>] None)
        [''constructor'' \<mapsto> \<lparr> s_history = [], s_context = Some ''order'' \<rparr>]
        \<lparr> req_q = Some ''mau pesan'', req_sessionId = Some ''constructor'' \<rparr>
     = (JsonError 500 serverError,
        [''constructor'' \<mapsto> \<lparr> s_history = [], s_context = Some ''payment'' \<rparr>]) \<and>
   (case fst (chat (ex_env 0.3 ApiThrows) (ex_config [ex_item \<lparr> nextContextId := Some ''order'' \<rparr>] None)
                ex_memory \<lparr> req_q = Some ''mau pesan'', req_sessionId = Some ''s1'' \<rparr>) of
      JsonOk b \<Rightarrow> res_intent b = Some ''order'' \<and> res_score b = Some 0.3 \<and>
                   res_source b = ''local_qa''
    | JsonError st msg \<Rightarrow> False
    | NoResponse \<Rightarrow> False)"
proof -
  let ?e = "ex_env 0.3 ApiThrows"
  let ?cfg = "ex_config [ex_item \<lparr> nextContextId := Some ''order'' \<rparr>] None"
  let ?obj = "\<lparr> s_history = [], s_context = Some ''order'' \<rparr>"
  let ?sess = "\<lparr> s_history = [(''halo'', ''Halo!'')], s_context = Some ''order'' \<rparr>"
  let ?r = "\<lparr> item = ex_item, score = 0.3 \<rparr>"
  let ?mem = "[''constructor'' \<mapsto> ?obj]"
  have h1: "''mau pesan'' \<noteq> []" and h2: "''s1'' \<noteq> []" and h2': "''constructor'' \<noteq> []"
    and p1: "''s1'' \<noteq> ''__proto__''" and p1': "''constructor'' \<noteq> ''__proto__''"
    by simp_all
  have i1: "''s1'' \<notin> set inheritedKeys" and i1': "''constructor'' \<in> set inheritedKeys"
    by (simp_all add: inheritedKeys_def)
  have i2: "ex_memory ''__proto__'' = None" and i2': "?mem ''__proto__'' = None"
    by (simp_all add: ex_memory_def)
  have h3: "getOrCreate ex_memory ''s1'' = (?sess, ex_memory)"
    by (simp add: getOrCreate_def lookupSession_def inheritedKeys_def ex_memory_def)
  have h3': "getOrCreate ?mem ''constructor'' = (?obj, ?mem)"
    by (simp add: getOrCreate_def lookupSession_def inheritedKeys_def)
  have h4: "tokenizers ?e (tokenizerType ?cfg) = Some ex_tokenize"
    by (simp add: ex_env_def ex_config_def tokenizerType_def)
  have ctx: "contextualSearch ?e ?cfg ?sess ''mau pesan'' = Some ?r"
    by (simp add: contextualSearch_def truthy_def example_defs)
  have ctx': "contextualSearch ?e ?cfg ?obj ''mau pesan'' = Some ?r"
    by (simp add: contextualSearch_def truthy_def example_defs)
  have h5: "contextualSearch ?e ?cfg ?sess ''mau pesan'' = Some ?r \<or>
         (contextualSearch ?e ?cfg ?sess ''mau pesan'' = None \<and>
          generalSearch ?e ?cfg (detectLanguage ?e ?cfg ''mau pesan'') ''mau pesan'' = Some ?r)"
    using ctx by (rule disjI1)
  have h5': "contextualSearch ?e ?cfg ?obj ''mau pesan'' = Some ?r \<or>
         (contextualSearch ?e ?cfg ?obj ''mau pesan'' = None \<and>
          generalSearch ?e ?cfg (detectLanguage ?e ?cfg ''mau pesan'') ''mau pesan'' = Some ?r)"
    using ctx' by (rule disjI1)
  have h6: "accepted ?cfg ?r"
    by (simp add: accepted_def effectiveThreshold_def js_or_def js_lt_def ex_item_def ex_config_def)
  have h7: "getRandomAnswer (random ?e) (item ?r) = Some ''Baik {name}, pesanan dicatat.''"
    by (simp add: getRandomAnswer_def ex_env_def ex_item_def)
  have first: "chat ?e ?cfg Map.empty \<lparr> req_q = Some ''mau pesan'', req_sessionId = Some ''constructor'' \<rparr>
                 = (JsonError 500 serverError, ?mem)"
    by (simp add: handler_defs search_defs example_defs text_defs)
  from accepted_match_fields [OF h1 h2' p1' i2' h3' h4 h5' h6 h7, THEN conjunct2, rule_format, OF i1']
  have second: "chat ?e ?cfg ?mem \<lparr> req_q = Some ''mau pesan'', req_sessionId = Some ''constructor'' \<rparr>
                  = (JsonError 500 serverError,
                     [''constructor'' \<mapsto> \<lparr> s_history = [], s_context = Some ''payment'' \<rparr>])"
    by (simp add: ex_item_def truthy_def)
  from accepted_match_fields [OF h1 h2 p1 i2 h3 h4 h5 h6 h7, THEN conjunct1, rule_format, OF i1]
  obtain b where "fst (chat ?e ?cfg ex_memory
                         \<lparr> req_q = Some ''mau pesan'', req_sessionId = Some ''s1'' \<rparr>) = JsonOk b \<and>
      res_intent b = intent (item ?r) \<and> res_score b = Some (score ?r) \<and>
      res_source b = ''local_qa''"
    ..
  then have third: "(case fst (chat ?e ?cfg ex_memory
                \<lparr> req_q = Some ''mau pesan'', req_sessionId = Some ''s1'' \<rparr>) of
      JsonOk b \<Rightarrow> res_intent b = Some ''order'' \<and> res_score b = Some 0.3 \<and>
                   res_source b = ''local_qa''
    | JsonError st msg \<Rightarrow> False
    | NoResponse \<Rightarrow> False)"
    by (simp add: ex_item_def)
  from first ctx' h6 second third show ?thesis
    by (intro conjI)
qed

end
